theory Spec2Isabelle
  imports Complex_Main "HOL-Library.Multiset"
begin

section \<open>Strings, cells and tables\<close>

text \<open>
  Python strings are modelled as \<^typ>\<open>string\<close> holding the UTF-8 bytes of the text.
  The Korean marker words of the source are byte sequences; a substring test on UTF-8
  bytes agrees with Python's substring test on code points.
\<close>

definition kw_date :: string where
  "kw_date = [CHR 0xEB, CHR 0x82, CHR 0xA0, CHR 0xEC, CHR 0xA7, CHR 0x9C]"

definition kw_type :: string where
  "kw_type = [CHR 0xEC, CHR 0xA2, CHR 0x85, CHR 0xEB, CHR 0xA5, CHR 0x98]"

definition kw_merchant :: string where
  "kw_merchant = [CHR 0xEA, CHR 0xB0, CHR 0x80, CHR 0xEB, CHR 0xA7, CHR 0xB9, CHR 0xEC, CHR 0xA0, CHR 0x90]"

definition kw_krw_amount :: string where
  "kw_krw_amount = [CHR 0xEC, CHR 0x9B, CHR 0x90, CHR 0xED, CHR 0x99, CHR 0x94,
                    CHR 0xEA, CHR 0xB8, CHR 0x88, CHR 0xEC, CHR 0x95, CHR 0xA1]"

definition kw_charge :: string where
  "kw_charge = [CHR 0xEC, CHR 0xB6, CHR 0xA9, CHR 0xEC, CHR 0xA0, CHR 0x84]"

definition kw_time :: string where
  "kw_time = [CHR 0xEC, CHR 0x8B, CHR 0x9C, CHR 0xEA, CHR 0xB0, CHR 0x84]"

definition kw_payment :: string where
  "kw_payment = [CHR 0xEA, CHR 0xB2, CHR 0xB0, CHR 0xEC, CHR 0xA0, CHR 0x9C]"

fun startswith :: "string \<Rightarrow> string \<Rightarrow> bool" where
  "startswith s [] = True"
| "startswith [] (p # ps) = False"
| "startswith (c # cs) (p # ps) = (c = p \<and> startswith cs ps)"

text \<open>\<open>contains s p\<close> is Python's \<open>p in s\<close>.\<close>

fun contains :: "string \<Rightarrow> string \<Rightarrow> bool" where
  "contains [] p = (p = [])"
| "contains (c # cs) p = (startswith (c # cs) p \<or> contains cs p)"

definition endswith :: "string \<Rightarrow> string \<Rightarrow> bool" where
  "endswith s p = startswith (rev s) (rev p)"

text \<open>
  \<open>str.lower()\<close> on the ASCII letters. No theorem below needs more: none of the words
  searched after lowering (\<open>date\<close>, \<open>time\<close>, \<open>charge\<close> and the like) has a letter that
  is the lower case of a character outside ASCII in a way that could complete a match.
\<close>

definition lower_char :: "char \<Rightarrow> char" where
  "lower_char c =
     (case map_of (zip ''ABCDEFGHIJKLMNOPQRSTUVWXYZ'' ''abcdefghijklmnopqrstuvwxyz'') c of
        Some l \<Rightarrow> l
      | None \<Rightarrow> c)"

definition lower :: "string \<Rightarrow> string" where
  "lower s = map lower_char s"

text \<open>\<open>str.replace(c, '')\<close> and \<open>str.replace('.', '-')\<close> for one-character patterns.\<close>

definition remove_char :: "char \<Rightarrow> string \<Rightarrow> string" where
  "remove_char c s = filter (\<lambda>x. x \<noteq> c) s"

definition replace_char :: "char \<Rightarrow> char \<Rightarrow> string \<Rightarrow> string" where
  "replace_char a b s = map (\<lambda>x. if x = a then b else x) s"

definition is_space :: "char \<Rightarrow> bool" where
  "is_space c = (c \<in> set [CHR '' '', CHR 0x09, CHR 0x0A, CHR 0x0B, CHR 0x0C, CHR 0x0D])"

definition strip :: "string \<Rightarrow> string" where
  "strip s = rev (dropWhile is_space (rev (dropWhile is_space s)))"

text \<open>
  A calendar date; the time of day that a pandas timestamp also carries is not modelled.
  A missing date (\<open>NaT\<close>) is \<open>None\<close>, a missing number (\<open>NaN\<close>) is \<open>None\<close>; floating-point
  amounts are modelled as exact rationals.
\<close>

record date =
  year :: nat
  month :: nat
  day :: nat

datatype cell = Num rat | Str string | Missing

text \<open>
  A data frame as read by pandas: the column labels in order, and each row as a function
  from column label to cell (only the labels in \<open>columns\<close> are meaningful). Column labels
  are strings.
\<close>

record table =
  columns :: "string list"
  rows :: "(string \<Rightarrow> cell) list"

datatype py_error =
    KeyError string
  | KeyErrorList "string list"
  | AttributeError
  | ValueError
  | FileNotFoundError
  | OtherError

text \<open>
  The pandas and Python library routines whose result depends on number and date syntax
  or on a file format are parameters of the model:
  \<^item> parsing a string as a number (\<open>pd.to_numeric\<close>), parsing one value as a date with
    format inference and with the fixed format \<open>%d/%m/%Y\<close> (\<open>pd.to_datetime\<close>), and printing
    a number (\<open>str\<close>); they are applied element by element;
  \<^item> \<open>csv_number\<close>: the number that \<open>pd.read_csv\<close> reads in a field of the ledger file, if the
    field is the text of a number;
  \<^item> reading the uploaded bytes: \<open>read_csv\<close> (decoding and \<open>pd.read_csv\<close>), \<open>read_excel_raw\<close>
    (\<open>pd.read_excel\<close> with openpyxl, \<open>header=None\<close> and \<open>nrows\<close>: the first rows as they
    are), \<open>read_excel\<close> (openpyxl with the header at a given row, 0 by default),
    \<open>read_excel_xlrd\<close>; an exception is the \<open>Inl\<close> result;
  \<^item> msoffcrypto: whether the module can be imported, whether opening the file raises,
    and the outcome of decrypting with the empty password and reading the result.
\<close>

record lib =
  parse_number :: "string \<Rightarrow> rat option"
  parse_datetime :: "cell \<Rightarrow> date option"
  parse_datetime_dmy :: "cell \<Rightarrow> date option"
  str_of_number :: "rat \<Rightarrow> string"
  csv_number :: "string \<Rightarrow> rat option"
  read_csv :: "string \<Rightarrow> py_error + table"
  read_excel_raw :: "string \<Rightarrow> nat \<Rightarrow> py_error + cell list list"
  read_excel :: "string \<Rightarrow> nat \<Rightarrow> py_error + table"
  read_excel_xlrd :: "string \<Rightarrow> py_error + table"
  has_msoffcrypto :: bool
  office_file :: "string \<Rightarrow> py_error option"
  decrypt_read :: "string \<Rightarrow> py_error + table"

definition to_numeric :: "lib \<Rightarrow> cell \<Rightarrow> rat option" where
  "to_numeric L c = (case c of Num x \<Rightarrow> Some x | Str s \<Rightarrow> parse_number L s | Missing \<Rightarrow> None)"

definition to_datetime :: "lib \<Rightarrow> cell \<Rightarrow> date option" where
  "to_datetime L c = (case c of Missing \<Rightarrow> None | _ \<Rightarrow> parse_datetime L c)"

definition to_datetime_dmy :: "lib \<Rightarrow> cell \<Rightarrow> date option" where
  "to_datetime_dmy L c = (case c of Missing \<Rightarrow> None | _ \<Rightarrow> parse_datetime_dmy L c)"

text \<open>\<open>astype(str)\<close> on one cell; a missing value prints as \<open>nan\<close>.\<close>

definition astype_str :: "lib \<Rightarrow> cell \<Rightarrow> string" where
  "astype_str L c = (case c of Num x \<Rightarrow> str_of_number L x | Str s \<Rightarrow> s | Missing \<Rightarrow> ''nan'')"

definition fillna :: "cell \<Rightarrow> cell \<Rightarrow> cell" where
  "fillna c d = (case c of Missing \<Rightarrow> d | _ \<Rightarrow> c)"

definition fillna0 :: "rat option \<Rightarrow> rat" where
  "fillna0 v = (case v of None \<Rightarrow> 0 | Some x \<Rightarrow> x)"

text \<open>\<open>series > 0\<close>: a comparison with \<open>NaN\<close> is false.\<close>

definition gt0 :: "rat option \<Rightarrow> bool" where
  "gt0 v = (case v of None \<Rightarrow> False | Some x \<Rightarrow> x > 0)"

text \<open>
  \<open>df.select_dtypes(include=['number']).columns\<close>: the columns that hold only numbers and
  missing values. A frame without rows has no numeric column.
\<close>

definition is_number_cell :: "cell \<Rightarrow> bool" where
  "is_number_cell c = (case c of Str _ \<Rightarrow> False | _ \<Rightarrow> True)"

definition numeric_cols :: "table \<Rightarrow> string list" where
  "numeric_cols df =
     filter (\<lambda>c. rows df \<noteq> [] \<and> list_all (\<lambda>r. is_number_cell (r c)) (rows df)) (columns df)"

section \<open>The canonical record and the normalized frame\<close>

text \<open>
  A row of a data frame of transactions. The date is the calendar date of the pandas
  timestamp, \<open>None\<close> for \<open>NaT\<close>. The text columns are cells, since pandas stores \<open>NaN\<close>
  and numbers in them as well.
\<close>

record txn =
  date :: "date option"
  time :: cell
  bank :: cell
  type :: cell
  merchant :: cell
  category :: cell
  amount_gbp :: "rat option"
  original_currency :: cell
  original_amount :: "rat option"
  is_income :: bool

text \<open>
  The frame \<open>normalized\<close> that \<open>normalize_uploaded_data\<close> builds column by column: the labels
  assigned so far and the rows. A field whose column was never assigned holds a
  placeholder and is not read.
\<close>

record frame =
  fcolumns :: "string list"
  frows :: "txn list"

definition KRW_TO_GBP_RATE :: rat where
  "KRW_TO_GBP_RATE = 1 / 1750"

definition KOREAN_INCOME_TYPE :: string where
  "KOREAN_INCOME_TYPE = ''charge''"

section \<open>\<open>normalize_uploaded_data\<close> (app.py)\<close>

definition has_col :: "table \<Rightarrow> string \<Rightarrow> bool" where
  "has_col df c = (c \<in> set (columns df))"

text \<open>\<open>df.get(key, default)\<close>, read at one row.\<close>

definition df_get :: "table \<Rightarrow> (string \<Rightarrow> cell) \<Rightarrow> string \<Rightarrow> cell \<Rightarrow> cell" where
  "df_get df r key dflt = (if has_col df key then r key else dflt)"

definition num_of_cell :: "cell \<Rightarrow> rat option" where
  "num_of_cell c = (case c of Num x \<Rightarrow> Some x | _ \<Rightarrow> None)"

definition normalized_columns :: "string list" where
  "normalized_columns = [''time'', ''bank'', ''type'', ''merchant'', ''category'', ''amount_gbp'',
                         ''original_currency'', ''original_amount'', ''is_income'']"

subsection \<open>Monzo branch\<close>

definition monzo_amount :: "lib \<Rightarrow> table \<Rightarrow> (string \<Rightarrow> cell) \<Rightarrow> rat option" where
  "monzo_amount L df r =
     (if has_col df ''Amount'' then to_numeric L (r ''Amount'')
      else (let out = fillna0 (to_numeric L (r ''Money Out''));
                in_val = fillna0 (to_numeric L (r ''Money In''))
            in Some (in_val - \<bar>out\<bar>)))"

definition monzo_row :: "lib \<Rightarrow> table \<Rightarrow> (string \<Rightarrow> cell) \<Rightarrow> txn" where
  "monzo_row L df r =
     \<lparr> date = (if has_col df ''Date'' then to_datetime_dmy L (r ''Date'') else None),
       time = (if has_col df ''Time'' then r ''Time'' else Str []),
       bank = Str ''Monzo'',
       type = df_get df r ''Type'' (Str []),
       merchant = df_get df r ''Name'' (Str []),
       category = df_get df r ''Category'' (Str ''Other''),
       amount_gbp = monzo_amount L df r,
       original_currency = Str ''GBP'',
       original_amount = monzo_amount L df r,
       is_income = (if has_col df ''Money In'' then fillna0 (to_numeric L (r ''Money In'')) > 0
                    else gt0 (monzo_amount L df r)) \<rparr>"

text \<open>
  The branch raises \<open>KeyError\<close> when it reads \<open>df['Money In']\<close> of a table that has
  \<open>Money Out\<close> only, and when it reads \<open>normalized['amount_gbp']\<close> although neither
  \<open>Amount\<close> nor \<open>Money Out\<close> gave that column. The \<open>date\<close> column is assigned only if the
  table has a \<open>Date\<close> column.
\<close>

definition monzo_branch :: "lib \<Rightarrow> table \<Rightarrow> py_error + frame" where
  "monzo_branch L df =
     (if \<not> has_col df ''Amount'' \<and> has_col df ''Money Out'' \<and> \<not> has_col df ''Money In''
        then Inl (KeyError ''Money In'')
      else if \<not> has_col df ''Amount'' \<and> \<not> has_col df ''Money Out''
        then Inl (KeyError ''amount_gbp'')
      else Inr \<lparr> fcolumns = (if has_col df ''Date'' then [''date''] else []) @ normalized_columns,
                 frows = map (monzo_row L df) (rows df) \<rparr>)"

subsection \<open>Korean (TravelWallet) branch\<close>

definition is_korean_col :: "string \<Rightarrow> bool" where
  "is_korean_col col = (contains col kw_merchant \<or> contains col kw_type \<or> contains col kw_krw_amount)"

definition krw_col :: "table \<Rightarrow> string option" where
  "krw_col df = find (\<lambda>col. contains col kw_krw_amount \<or> contains col ''KRW'') (columns df)"

definition krw_amount :: "lib \<Rightarrow> table \<Rightarrow> (string \<Rightarrow> cell) \<Rightarrow> rat option" where
  "krw_amount L df r =
     (case krw_col df of
        Some c \<Rightarrow> parse_number L (remove_char CHR '' '' (remove_char CHR '','' (astype_str L (r c))))
      | None \<Rightarrow> (if numeric_cols df \<noteq> [] then to_numeric L (r (last (numeric_cols df)))
                 else Some 0))"

text \<open>
  \<open>str.contains(pat, case=False, na=False)\<close>, where the pattern is the Korean word for
  a top-up, or \<open>charge\<close>.
\<close>

definition contains_charge :: "string \<Rightarrow> bool" where
  "contains_charge s = (contains s kw_charge \<or> contains (lower s) ''charge'')"

definition type_col :: "table \<Rightarrow> string option" where
  "type_col df = find (\<lambda>col. contains col kw_type) (columns df)"

definition korean_is_income :: "lib \<Rightarrow> table \<Rightarrow> (string \<Rightarrow> cell) \<Rightarrow> bool" where
  "korean_is_income L df r =
     (case type_col df of
        Some c \<Rightarrow> contains_charge (astype_str L (r c))
      | None \<Rightarrow> False)"

definition korean_amount_gbp :: "lib \<Rightarrow> table \<Rightarrow> (string \<Rightarrow> cell) \<Rightarrow> rat option" where
  "korean_amount_gbp L df r =
     (let amount = map_option (\<lambda>k. \<bar>k\<bar> * KRW_TO_GBP_RATE) (krw_amount L df r)
      in if korean_is_income L df r then amount else map_option (\<lambda>a. - \<bar>a\<bar>) amount)"

definition korean_row :: "lib \<Rightarrow> table \<Rightarrow> (string \<Rightarrow> cell) \<Rightarrow> txn" where
  "korean_row L df r =
     \<lparr> date = (case find (\<lambda>col. contains col kw_date \<or> contains (lower col) ''date'') (columns df) of
                 Some c \<Rightarrow> to_datetime L (Str (replace_char CHR ''.'' CHR ''-'' (astype_str L (r c))))
               | None \<Rightarrow> None),
       time = (case find (\<lambda>col. contains col kw_time \<or> contains (lower col) ''time'') (columns df) of
                 Some c \<Rightarrow> Str (astype_str L (r c))
               | None \<Rightarrow> Str []),
       bank = Str ''TravelWallet (Korea)'',
       type = (case type_col df of
                 Some c \<Rightarrow> Str (astype_str L (r c))
               | None \<Rightarrow> Str []),
       merchant = (case find (\<lambda>col. contains col kw_merchant) (columns df) of
                     Some c \<Rightarrow> fillna (r c) (Str ''Unknown'')
                   | None \<Rightarrow> Str ''Unknown''),
       category = (case find (\<lambda>col. contains col kw_merchant) (columns df) of
                     Some c \<Rightarrow> fillna (r c) (Str ''Other'')
                   | None \<Rightarrow> Str ''Other''),
       amount_gbp = korean_amount_gbp L df r,
       original_currency = Str ''KRW'',
       original_amount = map_option abs (krw_amount L df r),
       is_income = korean_is_income L df r \<rparr>"

definition korean_branch :: "lib \<Rightarrow> table \<Rightarrow> frame" where
  "korean_branch L df =
     \<lparr> fcolumns = ''date'' # normalized_columns, frows = map (korean_row L df) (rows df) \<rparr>"

subsection \<open>Generic branch\<close>

text \<open>
  The branch starts from an empty frame. Assigning a scalar to a frame that has no rows
  yet makes an empty column, and the first series assigned afterwards brings the rows,
  the columns made before it being filled with \<open>NaN\<close>. So a scalar takes effect only
  once a column of the input has been assigned; and when no column of the input is ever
  assigned, the frame stays without rows. (In the other two branches the first
  assignment that succeeds is a series.)
\<close>

definition date_cols :: "table \<Rightarrow> string list" where
  "date_cols df = filter (\<lambda>c. contains (lower c) ''date'') (columns df)"

definition amount_cols :: "table \<Rightarrow> string list" where
  "amount_cols df =
     filter (\<lambda>c. contains (lower c) ''amount'' \<or> contains (lower c) ''value'') (columns df)"

definition cat_cols :: "table \<Rightarrow> string list" where
  "cat_cols df =
     filter (\<lambda>c. contains (lower c) ''category'' \<or> contains (lower c) ''type'') (columns df)"

definition name_cols :: "table \<Rightarrow> string list" where
  "name_cols df =
     filter (\<lambda>c. contains (lower c) ''name'' \<or> contains (lower c) ''merchant''
                  \<or> contains (lower c) ''description'') (columns df)"

definition generic_amount :: "lib \<Rightarrow> table \<Rightarrow> (string \<Rightarrow> cell) \<Rightarrow> rat option" where
  "generic_amount L df r =
     (if amount_cols df \<noteq> [] then to_numeric L (r (hd (amount_cols df)))
      else if numeric_cols df \<noteq> [] then num_of_cell (r (hd (numeric_cols df)))
      else if date_cols df \<noteq> [] then Some 0
      else None)"

definition generic_row :: "lib \<Rightarrow> table \<Rightarrow> (string \<Rightarrow> cell) \<Rightarrow> txn" where
  "generic_row L df r =
     (let indexed1 = (date_cols df \<noteq> []);
          indexed2 = (indexed1 \<or> amount_cols df \<noteq> [] \<or> numeric_cols df \<noteq> []);
          indexed3 = (indexed2 \<or> cat_cols df \<noteq> [])
      in \<lparr> date = (if date_cols df \<noteq> [] then to_datetime L (r (hd (date_cols df))) else None),
            time = (if indexed1 then Str [] else Missing),
            bank = (if indexed1 then Str ''Uploaded'' else Missing),
            type = (if indexed1 then Str [] else Missing),
            merchant = (if name_cols df \<noteq> [] then r (hd (name_cols df))
                        else if indexed3 then Str [] else Missing),
            category = (if cat_cols df \<noteq> [] then r (hd (cat_cols df))
                        else if indexed2 then Str ''Other'' else Missing),
            amount_gbp = generic_amount L df r,
            original_currency = (if indexed2 then Str ''GBP'' else Missing),
            original_amount = generic_amount L df r,
            is_income = gt0 (generic_amount L df r) \<rparr>)"

definition generic_branch :: "lib \<Rightarrow> table \<Rightarrow> frame" where
  "generic_branch L df =
     \<lparr> fcolumns = ''date'' # normalized_columns,
       frows = (if date_cols df \<noteq> [] \<or> amount_cols df \<noteq> [] \<or> numeric_cols df \<noteq> []
                   \<or> cat_cols df \<noteq> [] \<or> name_cols df \<noteq> []
                then map (generic_row L df) (rows df) else []) \<rparr>"

subsection \<open>Clean-up and dispatch\<close>

text \<open>
  \<open>normalized.dropna(subset=['date', 'amount_gbp'], how='all')\<close>: a \<open>KeyError\<close> listing the
  labels of the subset that are not columns of the frame; otherwise the rows in which
  both values are missing are removed.
\<close>

definition all_na :: "txn \<Rightarrow> bool" where
  "all_na t = (date t = None \<and> amount_gbp t = None)"

definition dropna_date_amount :: "frame \<Rightarrow> py_error + frame" where
  "dropna_date_amount normalized =
     (let missing = filter (\<lambda>c. c \<notin> set (fcolumns normalized)) [''date'', ''amount_gbp'']
      in if missing \<noteq> [] then Inl (KeyErrorList missing)
         else Inr (normalized \<lparr> frows := filter (\<lambda>t. \<not> all_na t) (frows normalized) \<rparr>))"

definition select_branch :: "lib \<Rightarrow> table \<Rightarrow> py_error + frame" where
  "select_branch L df =
     (if has_col df ''Transaction ID'' \<or> has_col df ''Date'' then monzo_branch L df
      else if list_ex is_korean_col (columns df) then Inr (korean_branch L df)
      else Inr (generic_branch L df))"

definition normalize_uploaded_data :: "lib \<Rightarrow> table \<Rightarrow> string \<Rightarrow> py_error + frame" where
  "normalize_uploaded_data L df source_type =
     (case select_branch L df of
        Inl e \<Rightarrow> Inl e
      | Inr normalized \<Rightarrow> dropna_date_amount normalized)"

section \<open>\<open>load_korean_excel\<close> and \<open>normalize_and_merge\<close> (src/data_loader.py)\<close>

text \<open>
  \<open>pd.to_datetime\<close> without \<open>errors='coerce'\<close> raises on a value it cannot parse; a missing
  value becomes \<open>NaT\<close>.
\<close>

definition to_datetime_raise :: "lib \<Rightarrow> cell \<Rightarrow> py_error + date option" where
  "to_datetime_raise L c =
     (case c of
        Missing \<Rightarrow> Inr None
      | _ \<Rightarrow> (case parse_datetime L c of None \<Rightarrow> Inl ValueError | Some d \<Rightarrow> Inr (Some d)))"

definition merchant_col :: "table \<Rightarrow> string option" where
  "merchant_col df = find (\<lambda>col. contains col kw_merchant \<or> contains (lower col) ''merchant'') (columns df)"

definition payment_type_col :: "table \<Rightarrow> string option" where
  "payment_type_col df = find (\<lambda>col. contains col kw_type \<or> contains (lower col) ''type'') (columns df)"

definition date_col :: "table \<Rightarrow> string option" where
  "date_col df = find (\<lambda>col. contains col kw_date \<or> contains (lower col) ''date'') (columns df)"

text \<open>\<open>series.str.lower().str.strip() == KOREAN_INCOME_TYPE\<close> at one cell of a text column.\<close>

definition is_income_type :: "cell \<Rightarrow> bool" where
  "is_income_type c = (case c of Str s \<Rightarrow> strip (lower s) = KOREAN_INCOME_TYPE | _ \<Rightarrow> False)"

definition loader_row :: "table \<Rightarrow> (string \<Rightarrow> cell) \<Rightarrow> date option \<Rightarrow> txn" where
  "loader_row df r d =
     (let amount_col = last (numeric_cols df);
          original = num_of_cell (r amount_col);
          amount = map_option (\<lambda>a. a * KRW_TO_GBP_RATE) original
      in \<lparr> date = d,
            time = Str [],
            bank = Str ''TravelWallet (Korea)'',
            type = (case payment_type_col df of Some c \<Rightarrow> r c | None \<Rightarrow> Str []),
            merchant = (case merchant_col df of Some c \<Rightarrow> r c | None \<Rightarrow> Str []),
            category = (case merchant_col df of Some c \<Rightarrow> r c | None \<Rightarrow> Str []),
            amount_gbp = amount,
            original_currency = Str ''KRW'',
            original_amount = original,
            is_income = (case payment_type_col df of
                           Some c \<Rightarrow> is_income_type (r c)
                         | None \<Rightarrow> gt0 amount) \<rparr>)"

fun loader_rows :: "lib \<Rightarrow> table \<Rightarrow> (string \<Rightarrow> cell) list \<Rightarrow> py_error + txn list" where
  "loader_rows L df [] = Inr []"
| "loader_rows L df (r # rs) =
     (case (case date_col df of Some c \<Rightarrow> to_datetime_raise L (r c) | None \<Rightarrow> Inr None) of
        Inl e \<Rightarrow> Inl e
      | Inr d \<Rightarrow> (case loader_rows L df rs of
                    Inl e \<Rightarrow> Inl e
                  | Inr ts \<Rightarrow> Inr (loader_row df r d # ts)))"

text \<open>
  The argument \<open>file\<close> is what reading the workbook gave: \<open>None\<close> when the path does not
  exist, an error when reading or decrypting raised, the table otherwise. An empty data
  frame is returned as the empty list of rows. The \<open>.str\<close> accessor raises on a column
  that is not a text column.
\<close>

definition load_korean_excel :: "lib \<Rightarrow> (py_error + table) option \<Rightarrow> py_error + txn list" where
  "load_korean_excel L file =
     (case file of
        None \<Rightarrow> Inr []
      | Some (Inl e) \<Rightarrow> Inr []
      | Some (Inr df) \<Rightarrow>
          if rows df = [] \<or> columns df = [] then Inr []
          else if numeric_cols df = [] then Inr []
          else (case loader_rows L df (rows df) of
                  Inl e \<Rightarrow> Inl e
                | Inr normalized \<Rightarrow>
                    (case payment_type_col df of
                       Some c \<Rightarrow> if c \<in> set (numeric_cols df) then Inl AttributeError
                                 else Inr normalized
                     | None \<Rightarrow> Inr normalized)))"

text \<open>
  Dates are compared as calendar dates; \<open>sort_values('date')\<close> sorts ascending and puts
  missing dates last. The sort is modelled by insertion; the order that pandas gives to
  rows of equal date depends on its sorting routine and no theorem below relies on it.
\<close>

definition date_less_eq :: "date \<Rightarrow> date \<Rightarrow> bool" where
  "date_less_eq a b =
     (year a < year b \<or> (year a = year b \<and> (month a < month b \<or> (month a = month b \<and> day a \<le> day b))))"

definition date_le :: "date option \<Rightarrow> date option \<Rightarrow> bool" where
  "date_le a b = (case b of None \<Rightarrow> True
                  | Some y \<Rightarrow> (case a of None \<Rightarrow> False | Some x \<Rightarrow> date_less_eq x y))"

fun insort_date :: "txn \<Rightarrow> txn list \<Rightarrow> txn list" where
  "insort_date t [] = [t]"
| "insort_date t (u # us) = (if date_le (date t) (date u) then t # u # us else u # insort_date t us)"

definition sort_values_date :: "txn list \<Rightarrow> txn list" where
  "sort_values_date ts = foldr insort_date ts []"

definition normalize_and_merge :: "txn list \<Rightarrow> txn list \<Rightarrow> txn list" where
  "normalize_and_merge monzo_df korean_df =
     (let dfs_to_merge = (if monzo_df \<noteq> [] then [monzo_df] else [])
                         @ (if korean_df \<noteq> [] then [korean_df] else [])
      in if dfs_to_merge = [] then []
         else sort_values_date (concat dfs_to_merge))"

section \<open>The ledger store (src/data_loader.py)\<close>

text \<open>\<open>strftime('%Y-%m-%d')\<close>, with the year in four digits and month and day in two.\<close>

definition digit_char :: "nat \<Rightarrow> char" where
  "digit_char n = ''0123456789'' ! (n mod 10)"

definition pad2 :: "nat \<Rightarrow> string" where
  "pad2 n = [digit_char (n div 10), digit_char n]"

definition pad4 :: "nat \<Rightarrow> string" where
  "pad4 n = [digit_char (n div 1000), digit_char (n div 100), digit_char (n div 10), digit_char n]"

definition strftime :: "date \<Rightarrow> string" where
  "strftime d = pad4 (year d) @ ''-'' @ pad2 (month d) @ ''-'' @ pad2 (day d)"

text \<open>
  A line of the ledger file, field by field. The date and the text columns are text.
  The two amounts and the flag are kept as the number (or \<open>NaN\<close>) and the boolean that
  \<open>to_csv\<close> prints and \<open>read_csv\<close> reads back; how a float is printed is outside this model,
  amounts being exact rationals.
\<close>

record csv_row =
  csv_date :: string
  csv_time :: string
  csv_bank :: string
  csv_type :: string
  csv_merchant :: string
  csv_category :: string
  csv_amount_gbp :: "rat option"
  csv_original_currency :: string
  csv_original_amount :: "rat option"
  csv_is_income :: bool

record upload_entry =
  entry_filename :: string
  entry_bank :: cell
  entry_transactions :: nat
  entry_currency :: cell
  entry_source :: string

text \<open>
  The files and globals that the upload handler touches: the combined ledger file
  (\<open>None\<close> when it does not exist), the upload history, and the cached data frame.
  Writing a file always succeeds in this model; the time stamps of the history and of
  the cache are left out.
\<close>

record state =
  ledger_file :: "csv_row list option"
  upload_history :: "upload_entry list"
  df_cache :: "txn list option"

definition date_text :: "date option \<Rightarrow> string" where
  "date_text d = (case d of None \<Rightarrow> [] | Some x \<Rightarrow> strftime x)"

text \<open>
  How \<open>to_csv\<close> writes a cell of a text column: a missing value as the empty field, a
  string as it is (quoting is undone by the reader, the file is modelled by its fields),
  a number as Python prints it.
\<close>

definition csv_text :: "lib \<Rightarrow> cell \<Rightarrow> string" where
  "csv_text L c = (case c of Missing \<Rightarrow> [] | Str s \<Rightarrow> s | Num x \<Rightarrow> str_of_number L x)"

definition save_row :: "lib \<Rightarrow> txn \<Rightarrow> csv_row" where
  "save_row L t =
     \<lparr> csv_date = date_text (date t),
       csv_time = csv_text L (time t),
       csv_bank = csv_text L (bank t),
       csv_type = csv_text L (type t),
       csv_merchant = csv_text L (merchant t),
       csv_category = csv_text L (category t),
       csv_amount_gbp = amount_gbp t,
       csv_original_currency = csv_text L (original_currency t),
       csv_original_amount = original_amount t,
       csv_is_income = is_income t \<rparr>"

definition save_combined_csv :: "lib \<Rightarrow> txn list \<Rightarrow> state \<Rightarrow> state" where
  "save_combined_csv L df st = st \<lparr> ledger_file := Some (map (save_row L) df) \<rparr>"

text \<open>
  \<open>pd.read_csv\<close> with its defaults: a field that is empty, or is one of the texts that
  pandas takes for a missing value, is read as \<open>NaN\<close>; a column in which every other
  field is the text of a number is read as numbers, and any other column as strings.
  (A column of nothing but \<open>True\<close> and \<open>False\<close> would be read as booleans; cells have no
  boolean, and such a text column is read as strings here.)
\<close>

definition na_values :: "string list" where
  "na_values = [[], ''#N/A'', ''#N/A N/A'', ''#NA'', ''-1.#IND'', ''-1.#QNAN'', ''-NaN'', ''-nan'',
                ''1.#IND'', ''1.#QNAN'', ''<NA>'', ''N/A'', ''NA'', ''NULL'', ''NaN'', ''None'',
                ''n/a'', ''nan'', ''null'']"

definition csv_cell :: "string \<Rightarrow> cell" where
  "csv_cell s = (if s \<in> set na_values then Missing else Str s)"

definition csv_number_cell :: "lib \<Rightarrow> string \<Rightarrow> cell" where
  "csv_number_cell L s =
     (if s \<in> set na_values then Missing
      else (case csv_number L s of Some x \<Rightarrow> Num x | None \<Rightarrow> Missing))"

definition read_csv_column :: "lib \<Rightarrow> string list \<Rightarrow> cell list" where
  "read_csv_column L texts =
     (if list_all (\<lambda>s. s \<in> set na_values \<or> csv_number L s \<noteq> None) texts
      then map (csv_number_cell L) texts
      else map csv_cell texts)"

text \<open>
  \<open>pd.to_datetime(df['date'])\<close> on the date column, which raises on the first value it
  cannot parse. The dates that \<open>save_combined_csv\<close> writes have hyphens in them and are
  no numbers, so that the column is read as strings.
\<close>

fun to_datetime_column :: "lib \<Rightarrow> cell list \<Rightarrow> py_error + date option list" where
  "to_datetime_column L [] = Inr []"
| "to_datetime_column L (c # cs) =
     (case to_datetime_raise L c of
        Inl e \<Rightarrow> Inl e
      | Inr d \<Rightarrow> (case to_datetime_column L cs of
                    Inl e \<Rightarrow> Inl e
                  | Inr ds \<Rightarrow> Inr (d # ds)))"

text \<open>The data frame, put together from the columns read from the lines \<open>stored\<close>.\<close>

definition loaded_frame :: "lib \<Rightarrow> csv_row list \<Rightarrow> date option list \<Rightarrow> txn list" where
  "loaded_frame L stored dates =
     (let times = read_csv_column L (map csv_time stored);
          banks = read_csv_column L (map csv_bank stored);
          types = read_csv_column L (map csv_type stored);
          merchants = read_csv_column L (map csv_merchant stored);
          categories = read_csv_column L (map csv_category stored);
          currencies = read_csv_column L (map csv_original_currency stored)
      in map (\<lambda>i. \<lparr> date = dates ! i, time = times ! i, bank = banks ! i, type = types ! i,
                     merchant = merchants ! i, category = categories ! i,
                     amount_gbp = csv_amount_gbp (stored ! i),
                     original_currency = currencies ! i,
                     original_amount = csv_original_amount (stored ! i),
                     is_income = csv_is_income (stored ! i) \<rparr>)
             [0 ..< length stored])"

definition load_combined_csv :: "lib \<Rightarrow> state \<Rightarrow> py_error + txn list" where
  "load_combined_csv L st =
     (case ledger_file st of
        None \<Rightarrow> Inl FileNotFoundError
      | Some stored \<Rightarrow>
          (case to_datetime_column L (map (\<lambda>r. csv_cell (csv_date r)) stored) of
             Inl e \<Rightarrow> Inl e
           | Inr dates \<Rightarrow> Inr (loaded_frame L stored dates)))"

section \<open>The upload handler \<open>api_upload\<close> (app.py)\<close>

text \<open>
  \<open>reload_data\<close>: the cache is cleared and \<open>get_data\<close> loads the ledger again; only
  \<open>FileNotFoundError\<close> is caught there.
\<close>

definition reload_data :: "lib \<Rightarrow> state \<Rightarrow> py_error + state" where
  "reload_data L st =
     (case load_combined_csv L (st \<lparr> df_cache := None \<rparr>) of
        Inr df \<Rightarrow> Inr (st \<lparr> df_cache := Some df \<rparr>)
      | Inl e \<Rightarrow> if e = FileNotFoundError then Inr (st \<lparr> df_cache := Some [] \<rparr>) else Inl e)"

fun upsert_history :: "string \<Rightarrow> cell \<Rightarrow> nat \<Rightarrow> cell \<Rightarrow> upload_entry list \<Rightarrow> upload_entry list" where
  "upsert_history filename bnk transactions currency [] =
     [\<lparr> entry_filename = filename, entry_bank = bnk, entry_transactions = transactions,
        entry_currency = currency, entry_source = ''upload'' \<rparr>]"
| "upsert_history filename bnk transactions currency (file_entry # files) =
     (if entry_filename file_entry = filename
      then file_entry \<lparr> entry_transactions := transactions \<rparr> # files
      else file_entry # upsert_history filename bnk transactions currency files)"

definition add_to_upload_history :: "string \<Rightarrow> cell \<Rightarrow> nat \<Rightarrow> cell \<Rightarrow> state \<Rightarrow> state" where
  "add_to_upload_history filename bnk transactions currency st =
     st \<lparr> upload_history := upsert_history filename bnk transactions currency (upload_history st) \<rparr>"

text \<open>\<open>drop_duplicates()\<close>: of rows equal in every column the first one is kept.\<close>

fun drop_duplicates_from :: "'a list \<Rightarrow> 'a list \<Rightarrow> 'a list" where
  "drop_duplicates_from seen [] = []"
| "drop_duplicates_from seen (x # xs) =
     (if x \<in> set seen then drop_duplicates_from seen xs
      else x # drop_duplicates_from (x # seen) xs)"

definition drop_duplicates :: "'a list \<Rightarrow> 'a list" where
  "drop_duplicates xs = drop_duplicates_from [] xs"

record request =
  has_file :: bool
  req_filename :: string
  req_content :: string

datatype upload_error =
    NoFileUploaded
  | NoFileSelected
  | PasswordProtected
  | PasswordProtectedNoTool
  | ExcelReadFailed py_error
  | UnsupportedFormat
  | NoValidData
  | Exception py_error

text \<open>
  An error response with its HTTP status, or the success response with the number of
  transactions added, the size of the combined ledger and the bank label.
\<close>

datatype response = Error nat upload_error | Success nat nat cell

definition is_encrypted :: "string \<Rightarrow> bool" where
  "is_encrypted content = (take 4 (take 8 content) = [CHR 0xD0, CHR 0xCF, CHR 0x11, CHR 0xE0])"

text \<open>The header-row search over the rows read with \<open>header=None, nrows=15\<close>.\<close>

definition row_has_marker :: "lib \<Rightarrow> cell list \<Rightarrow> bool" where
  "row_has_marker L row =
     (let row_vals = map (astype_str L) (filter (\<lambda>v. v \<noteq> Missing) row)
      in list_ex (\<lambda>v. contains v kw_date \<or> contains v kw_type \<or> contains v kw_merchant) row_vals)"

definition header_row :: "lib \<Rightarrow> cell list list \<Rightarrow> nat option" where
  "header_row L test_df =
     find (\<lambda>i. row_has_marker L (test_df ! i)) [0 ..< min 15 (length test_df)]"

definition read_excel_openpyxl :: "lib \<Rightarrow> string \<Rightarrow> py_error + table" where
  "read_excel_openpyxl L content =
     (case read_excel_raw L content 15 of
        Inl e1 \<Rightarrow> Inl e1
      | Inr test_df \<Rightarrow>
          (case header_row L test_df of
             Some h \<Rightarrow> read_excel L content h
           | None \<Rightarrow> read_excel L content 0))"

definition read_upload :: "lib \<Rightarrow> string \<Rightarrow> string \<Rightarrow> response + frame" where
  "read_upload L fname content =
     (if endswith fname ''.csv'' then
        (case read_csv L content of
           Inl e \<Rightarrow> Inl (Error 500 (Exception e))
         | Inr new_df \<Rightarrow>
             (case normalize_uploaded_data L new_df ''csv'' of
                Inl e \<Rightarrow> Inl (Error 500 (Exception e))
              | Inr normalized \<Rightarrow> Inr normalized))
      else if endswith fname ''.xlsx'' \<or> endswith fname ''.xls'' then
        (case (if is_encrypted content then
                 (if \<not> has_msoffcrypto L then Inl (Error 400 PasswordProtectedNoTool)
                  else (case office_file L content of
                          Some e \<Rightarrow> Inl (Error 500 (Exception e))
                        | None \<Rightarrow>
                            (case decrypt_read L content of
                               Inl e \<Rightarrow> Inl (Error 400 PasswordProtected)
                             | Inr new_df \<Rightarrow> Inr new_df)))
               else
                 (case read_excel_openpyxl L content of
                    Inr new_df \<Rightarrow> Inr new_df
                  | Inl e1 \<Rightarrow>
                      (case read_excel_xlrd L content of
                         Inr new_df \<Rightarrow> Inr new_df
                       | Inl e2 \<Rightarrow> Inl (Error 400 (ExcelReadFailed e1))))) of
           Inl resp \<Rightarrow> Inl resp
         | Inr new_df \<Rightarrow>
             (case normalize_uploaded_data L new_df ''excel'' of
                Inl e \<Rightarrow> Inl (Error 500 (Exception e))
              | Inr normalized \<Rightarrow> Inr normalized))
      else Inl (Error 400 UnsupportedFormat))"

text \<open>
  The merge of the handler: the existing ledger followed by the new rows, without exact
  duplicates; the new rows alone when the existing ledger cannot be loaded.
\<close>

definition merge_existing :: "lib \<Rightarrow> state \<Rightarrow> txn list \<Rightarrow> txn list" where
  "merge_existing L st new_df =
     (case load_combined_csv L st of
        Inr existing_df \<Rightarrow> drop_duplicates (existing_df @ new_df)
      | Inl e \<Rightarrow> new_df)"

definition api_upload :: "lib \<Rightarrow> request \<Rightarrow> state \<Rightarrow> response \<times> state" where
  "api_upload L req st =
     (if \<not> has_file req then (Error 400 NoFileUploaded, st)
      else if req_filename req = [] then (Error 400 NoFileSelected, st)
      else
        (case read_upload L (lower (req_filename req)) (req_content req) of
           Inl resp \<Rightarrow> (resp, st)
         | Inr normalized \<Rightarrow>
             let new_df = frows normalized in
             if new_df = [] then (Error 400 NoValidData, st)
             else
               let combined = merge_existing L st new_df;
                   bank_type = bank (hd new_df);
                   currency = original_currency (hd new_df);
                   st1 = save_combined_csv L combined st
               in (case reload_data L st1 of
                     Inl e \<Rightarrow> (Error 500 (Exception e), st1 \<lparr> df_cache := None \<rparr>)
                   | Inr st2 \<Rightarrow>
                       (Success (length new_df) (length combined) bank_type,
                        add_to_upload_history (req_filename req) bank_type (length new_df) currency st2))))"

section \<open>An instance of the library parameters\<close>

text \<open>
  A small instance of the parsing routines, used to run the model on concrete tables:
  numbers are read and printed as unsigned decimal integers, dates are \<open>YYYY-MM-DD\<close> (inferred format) and
  \<open>DD/MM/YYYY\<close> (fixed format), within the years that a pandas timestamp can hold in full.
  No file can be read with it; the examples set the reading routines they need.
\<close>

definition digit_val :: "char \<Rightarrow> nat option" where
  "digit_val c = (let n = (of_char c :: nat) in if 48 \<le> n \<and> n \<le> 57 then Some (n - 48) else None)"

fun digits_value :: "nat \<Rightarrow> string \<Rightarrow> nat option" where
  "digits_value acc [] = Some acc"
| "digits_value acc (c # cs) =
     (case digit_val c of None \<Rightarrow> None | Some d \<Rightarrow> digits_value (10 * acc + d) cs)"

definition nat_of_string :: "string \<Rightarrow> nat option" where
  "nat_of_string s = (if s = [] then None else digits_value 0 s)"

definition is_leap :: "nat \<Rightarrow> bool" where
  "is_leap y = (y mod 4 = 0 \<and> (y mod 100 \<noteq> 0 \<or> y mod 400 = 0))"

definition days_in_month :: "nat \<Rightarrow> nat \<Rightarrow> nat" where
  "days_in_month y m =
     (if m = 2 then (if is_leap y then 29 else 28)
      else if m = 4 \<or> m = 6 \<or> m = 9 \<or> m = 11 then 30 else 31)"

definition valid_date :: "date \<Rightarrow> bool" where
  "valid_date d = (1678 \<le> year d \<and> year d \<le> 2261 \<and> 1 \<le> month d \<and> month d \<le> 12
                   \<and> 1 \<le> day d \<and> day d \<le> days_in_month (year d) (month d))"

definition make_date :: "nat option \<Rightarrow> nat option \<Rightarrow> nat option \<Rightarrow> date option" where
  "make_date y m d =
     (case (y, m, d) of
        (Some y', Some m', Some d') \<Rightarrow>
          (let x = \<lparr> year = y', month = m', day = d' \<rparr> in if valid_date x then Some x else None)
      | _ \<Rightarrow> None)"

definition iso_date :: "string \<Rightarrow> date option" where
  "iso_date s =
     (if length s = 10 \<and> s ! 4 = CHR ''-'' \<and> s ! 7 = CHR ''-''
      then make_date (nat_of_string (take 4 s)) (nat_of_string (take 2 (drop 5 s)))
                     (nat_of_string (drop 8 s))
      else None)"

definition dmy_date :: "string \<Rightarrow> date option" where
  "dmy_date s =
     (if length s = 10 \<and> s ! 2 = CHR ''/'' \<and> s ! 5 = CHR ''/''
      then make_date (nat_of_string (drop 6 s)) (nat_of_string (take 2 (drop 3 s)))
                     (nat_of_string (take 2 s))
      else None)"

fun show_nat :: "nat \<Rightarrow> string" where
  "show_nat n = (if n < 10 then [digit_char n] else show_nat (n div 10) @ [digit_char n])"

declare show_nat.simps [simp del]

definition show_number :: "rat \<Rightarrow> string" where
  "show_number x = (if 0 \<le> x \<and> x = of_int \<lfloor>x\<rfloor> then show_nat (nat \<lfloor>x\<rfloor>) else ''nan'')"

definition demo_lib :: lib where
  "demo_lib =
     \<lparr> parse_number = (\<lambda>s. map_option of_nat (nat_of_string s)),
       parse_datetime = (\<lambda>c. case c of Str s \<Rightarrow> iso_date s | _ \<Rightarrow> None),
       parse_datetime_dmy = (\<lambda>c. case c of Str s \<Rightarrow> dmy_date s | _ \<Rightarrow> None),
       str_of_number = show_number,
       csv_number = (\<lambda>s. map_option of_nat (nat_of_string s)),
       read_csv = (\<lambda>b. Inl OtherError),
       read_excel_raw = (\<lambda>b n. Inl OtherError),
       read_excel = (\<lambda>b h. Inl OtherError),
       read_excel_xlrd = (\<lambda>b. Inl OtherError),
       has_msoffcrypto = False,
       office_file = (\<lambda>b. Some OtherError),
       decrypt_read = (\<lambda>b. Inl OtherError) \<rparr>"

text \<open>A row given by its cells; a label that is not listed reads as missing.\<close>

fun row_of :: "(string \<times> cell) list \<Rightarrow> string \<Rightarrow> cell" where
  "row_of [] c = Missing"
| "row_of ((k, v) # kvs) c = (if c = k then v else row_of kvs c)"

section \<open>Example tables\<close>

text \<open>A Monzo export without an \<open>Amount\<close> column, and a TravelWallet sheet with one top-up.\<close>

definition monzo_ex :: table where
  "monzo_ex =
     \<lparr> columns = [''Date'', ''Name'', ''Money Out'', ''Money In''],
       rows = [row_of [(''Date'', Str ''03/02/2024''), (''Name'', Str ''Cafe''),
                       (''Money Out'', Num (25 / 2)), (''Money In'', Num 0)]] \<rparr>"

definition korean_ex :: table where
  "korean_ex =
     \<lparr> columns = [kw_date, kw_type, kw_merchant, kw_krw_amount],
       rows = [row_of [(kw_date, Str ''2024.01.15''), (kw_type, Str kw_charge),
                       (kw_merchant, Str ''Cafe''), (kw_krw_amount, Str ''50,000'')]] \<rparr>"

text \<open>
  A Monzo table in which \<open>Money In\<close> and \<open>Amount\<close> disagree; a table with a transaction
  id and nothing else; one with a transaction id and an amount but no date; and a Monzo
  table with rows that parse in part only.
\<close>

definition monzo_conflict :: table where
  "monzo_conflict =
     \<lparr> columns = [''Date'', ''Amount'', ''Money In''],
       rows = [row_of [(''Date'', Str ''03/02/2024''), (''Amount'', Num (- 5)),
                       (''Money In'', Num 3)]] \<rparr>"

definition tid_only :: table where
  "tid_only =
     \<lparr> columns = [''Transaction ID''],
       rows = [row_of [(''Transaction ID'', Str ''tx_0001'')]] \<rparr>"

definition tid_amount :: table where
  "tid_amount =
     \<lparr> columns = [''Transaction ID'', ''Amount''],
       rows = [row_of [(''Transaction ID'', Str ''tx_0001''), (''Amount'', Num (- 5))]] \<rparr>"

definition monzo_dirty :: table where
  "monzo_dirty =
     \<lparr> columns = [''Date'', ''Amount''],
       rows = [row_of [(''Date'', Str ''03/02/2024''), (''Amount'', Num 5)],
               row_of [(''Date'', Str ''soon''), (''Amount'', Str ''n/a'')],
               row_of [(''Date'', Str ''soon''), (''Amount'', Num 7)],
               row_of [(''Date'', Str ''04/02/2024''), (''Amount'', Str ''n/a'')]] \<rparr>"

text \<open>
  TravelWallet sheets as the command-line loader reads them: a payment and a top-up of
  50000 KRW each; and a payment followed by a row without date and amount.
\<close>

definition tw_payment :: table where
  "tw_payment =
     \<lparr> columns = [kw_date, kw_type, kw_merchant, kw_krw_amount],
       rows = [row_of [(kw_date, Str ''2024-01-15''), (kw_type, Str kw_payment),
                       (kw_merchant, Str ''Cafe''), (kw_krw_amount, Num 50000)],
               row_of [(kw_date, Str ''2024-01-16''), (kw_type, Str kw_charge),
                       (kw_merchant, Str ''Bank''), (kw_krw_amount, Num 50000)]] \<rparr>"

definition tw_dirty :: table where
  "tw_dirty =
     \<lparr> columns = [kw_date, kw_type, kw_merchant, kw_krw_amount],
       rows = [row_of [(kw_date, Str ''2024-01-15''), (kw_type, Str kw_payment),
                       (kw_merchant, Str ''Cafe''), (kw_krw_amount, Num 50000)],
               row_of [(kw_type, Str kw_payment), (kw_merchant, Str ''Cafe'')]] \<rparr>"

text \<open>
  A workbook as openpyxl returns it, with twelve rows of preamble before the header;
  and the library instance that reads a given workbook, the cells of the header row
  becoming the column labels, or a given CSV table.
\<close>

definition tw_sheet :: "cell list list" where
  "tw_sheet =
     replicate 12 [Str ''TravelWallet statement'', Missing, Num 2024]
     @ [[Str kw_date, Str kw_type, Str kw_merchant, Str kw_krw_amount],
        [Str ''2024.01.15'', Str kw_charge, Str ''Bank'', Str ''50,000'']]"

definition sheet_lib :: "cell list list \<Rightarrow> lib" where
  "sheet_lib sheet =
     demo_lib \<lparr> read_excel_raw := (\<lambda>b n. Inr (take n sheet)),
                read_excel := (\<lambda>b h.
                  let labels = map (astype_str demo_lib) (sheet ! h)
                  in Inr \<lparr> columns = labels,
                           rows = map (\<lambda>cells. row_of (zip labels cells)) (drop (Suc h) sheet) \<rparr>) \<rparr>"

definition csv_lib :: "table \<Rightarrow> lib" where
  "csv_lib df = demo_lib \<lparr> read_csv := (\<lambda>b. Inr df) \<rparr>"

text \<open>
  A ledger that holds one transaction of March 2024, and an upload of one transaction
  of January 2024.
\<close>

definition txn_mar :: "txn" where
  "txn_mar =
     \<lparr> date = Some \<lparr> year = 2024, month = 3, day = 1 \<rparr>, time = Str ''12:00:00'',
       bank = Str ''Monzo'', type = Str ''Card payment'', merchant = Str ''Grocer'',
       category = Str ''Groceries'', amount_gbp = Some (- 20), original_currency = Str ''GBP'',
       original_amount = Some (- 20), is_income = False \<rparr>"

definition txn_jan :: "txn" where
  "txn_jan =
     \<lparr> date = Some \<lparr> year = 2024, month = 1, day = 1 \<rparr>, time = Str ''09:30:00'',
       bank = Str ''Monzo'', type = Str ''Card payment'', merchant = Str ''Cafe'',
       category = Str ''Eating out'', amount_gbp = Some (- 3), original_currency = Str ''GBP'',
       original_amount = Some (- 3), is_income = False \<rparr>"

text \<open>A record as the Monzo branch makes it from a table without time, type and name.\<close>

definition txn_plain :: txn where
  "txn_plain =
     \<lparr> date = Some \<lparr> year = 2024, month = 2, day = 3 \<rparr>, time = Str [],
       bank = Str ''Monzo'', type = Str [], merchant = Str [],
       category = Str ''Other'', amount_gbp = Some (- 5),
       original_currency = Str ''GBP'', original_amount = Some (- 5),
       is_income = True \<rparr>"

definition monzo_jan :: table where
  "monzo_jan =
     \<lparr> columns = [''Date'', ''Time'', ''Type'', ''Name'', ''Category'', ''Amount''],
       rows = [row_of [(''Date'', Str ''01/01/2024''), (''Time'', Str ''09:30:00''),
                       (''Type'', Str ''Card payment''), (''Name'', Str ''Cafe''),
                       (''Category'', Str ''Eating out''), (''Amount'', Num (- 3))]] \<rparr>"

definition ledger_mar :: state where
  "ledger_mar =
     \<lparr> ledger_file = Some [save_row demo_lib txn_mar], upload_history = [], df_cache = None \<rparr>"

definition upload_csv :: request where
  "upload_csv = \<lparr> has_file = True, req_filename = ''January.CSV'', req_content = [] \<rparr>"

definition upload_txt :: request where
  "upload_txt = \<lparr> has_file = True, req_filename = ''notes.txt'', req_content = ''hello'' \<rparr>"

section \<open>Properties used in the statements\<close>

text \<open>Ascending by date, missing dates last.\<close>

definition sorted_by_date :: "txn list \<Rightarrow> bool" where
  "sorted_by_date ts = sorted_wrt (\<lambda>a b. date_le (date a) (date b)) ts"

text \<open>
  A date that one of the date parsers returns; and the assumption on the library that
  such a date, printed by \<open>strftime('%Y-%m-%d')\<close>, is parsed back to itself.
\<close>

definition parsed_by :: "lib \<Rightarrow> date \<Rightarrow> bool" where
  "parsed_by L d = (\<exists>c. parse_datetime L c = Some d \<or> parse_datetime_dmy L c = Some d)"

definition reads_back :: "lib \<Rightarrow> bool" where
  "reads_back L = (\<forall>d. parsed_by L d \<longrightarrow> parse_datetime L (Str (strftime d)) = Some d)"

definition dates_parsed :: "lib \<Rightarrow> txn list \<Rightarrow> bool" where
  "dates_parsed L ts = (\<forall>t \<in> set ts. \<forall>d. date t = Some d \<longrightarrow> parsed_by L d)"

text \<open>The sign property of the specification, for one record.\<close>

definition sign_agrees :: "txn \<Rightarrow> bool" where
  "sign_agrees t = (amount_gbp t = Some 0 \<or> is_income t = gt0 (amount_gbp t))"

section \<open>Properties of \<open>normalize_uploaded_data\<close>\<close>

lemmas kw_defs = kw_date_def kw_type_def kw_merchant_def kw_krw_amount_def kw_charge_def
  kw_time_def kw_payment_def

lemmas string_defs = endswith_def lower_def lower_char_def remove_char_def replace_char_def
  is_space_def strip_def

lemmas cell_defs = to_numeric_def to_datetime_def to_datetime_dmy_def astype_str_def fillna_def
  fillna0_def gt0_def is_number_cell_def numeric_cols_def num_of_cell_def has_col_def df_get_def

lemmas normalize_defs = normalize_uploaded_data_def select_branch_def dropna_date_amount_def
  all_na_def normalized_columns_def monzo_branch_def monzo_row_def monzo_amount_def
  is_korean_col_def krw_col_def krw_amount_def contains_charge_def type_col_def
  korean_is_income_def korean_amount_gbp_def korean_row_def korean_branch_def
  date_cols_def amount_cols_def cat_cols_def name_cols_def generic_amount_def generic_row_def
  generic_branch_def KRW_TO_GBP_RATE_def

lemmas loader_defs = load_korean_excel_def loader_row_def to_datetime_raise_def merchant_col_def
  payment_type_col_def date_col_def is_income_type_def KOREAN_INCOME_TYPE_def KRW_TO_GBP_RATE_def

lemmas demo_defs = demo_lib_def digit_val_def nat_of_string_def is_leap_def days_in_month_def
  valid_date_def make_date_def iso_date_def dmy_date_def show_number_def show_nat.simps
  digit_char_def

lemmas store_defs = save_combined_csv_def save_row_def csv_text_def load_combined_csv_def
  loaded_frame_def read_csv_column_def csv_number_cell_def csv_cell_def na_values_def
  date_text_def strftime_def pad2_def pad4_def digit_char_def to_datetime_raise_def

lemmas upload_defs = api_upload_def read_upload_def merge_existing_def reload_data_def
  add_to_upload_history_def drop_duplicates_def is_encrypted_def

lemma dropna_ok:
  "''date'' \<in> set (fcolumns f) \<Longrightarrow> ''amount_gbp'' \<in> set (fcolumns f) \<Longrightarrow>
   dropna_date_amount f = Inr (f \<lparr> frows := filter (\<lambda>t. \<not> all_na t) (frows f) \<rparr>)"
  by (simp add: dropna_date_amount_def all_na_def)

lemma normalize_monzo:
  assumes "has_col df ''Date''"
    and "has_col df ''Amount'' \<or> (has_col df ''Money Out'' \<and> has_col df ''Money In'')"
  shows "normalize_uploaded_data L df s =
           Inr \<lparr> fcolumns = ''date'' # normalized_columns,
                 frows = filter (\<lambda>t. \<not> all_na t) (map (monzo_row L df) (rows df)) \<rparr>"
  using assms
  by (auto simp add: normalize_uploaded_data_def select_branch_def monzo_branch_def dropna_ok normalized_columns_def)

lemma normalize_korean:
  assumes "\<not> has_col df ''Transaction ID''" "\<not> has_col df ''Date''" "list_ex is_korean_col (columns df)"
  shows "normalize_uploaded_data L df s =
           Inr \<lparr> fcolumns = ''date'' # normalized_columns,
                 frows = filter (\<lambda>t. \<not> all_na t) (map (korean_row L df) (rows df)) \<rparr>"
  using assms
  by (simp add: normalize_uploaded_data_def select_branch_def korean_branch_def dropna_ok normalized_columns_def)

lemma normalize_generic:
  assumes "\<not> has_col df ''Transaction ID''" "\<not> has_col df ''Date''" "\<not> list_ex is_korean_col (columns df)"
  shows "normalize_uploaded_data L df s =
           Inr \<lparr> fcolumns = ''date'' # normalized_columns,
                 frows = filter (\<lambda>t. \<not> all_na t) (frows (generic_branch L df)) \<rparr>"
  using assms
  by (simp add: normalize_uploaded_data_def select_branch_def generic_branch_def dropna_ok normalized_columns_def)

text \<open>
  C6: a Monzo row of a table that has no \<open>Amount\<close> column, with \<open>Money In = 0\<close> and
  \<open>Money Out = 12.50\<close>, is normalized to a record with \<open>amount_gbp = -12.50\<close>, computed as
  money in minus the absolute value of money out, and \<open>is_income = False\<close>; the record is
  part of the output.
\<close>

theorem monzo_money_out_scenario:
  assumes "''Date'' \<in> set (columns df)" and "''Amount'' \<notin> set (columns df)"
    and "''Money Out'' \<in> set (columns df)" and "''Money In'' \<in> set (columns df)"
    and "r \<in> set (rows df)" and "r ''Money In'' = Num 0" and "r ''Money Out'' = Num (25 / 2)"
  shows "\<exists>normalized. normalize_uploaded_data L df source_type = Inr normalized
           \<and> monzo_row L df r \<in> set (frows normalized)
           \<and> amount_gbp (monzo_row L df r) = Some (- (25 / 2))
           \<and> amount_gbp (monzo_row L df r)
               = Some (fillna0 (to_numeric L (r ''Money In'')) - \<bar>fillna0 (to_numeric L (r ''Money Out''))\<bar>)
           \<and> is_income (monzo_row L df r) = False"
proof -
  have amt: "amount_gbp (monzo_row L df r) = Some (- (25 / 2))"
    using assms by (simp add: monzo_row_def monzo_amount_def has_col_def to_numeric_def fillna0_def)
  have inc: "is_income (monzo_row L df r) = False"
    using assms by (simp add: monzo_row_def has_col_def to_numeric_def fillna0_def)
  have keep: "\<not> all_na (monzo_row L df r)"
    using amt by (simp add: all_na_def)
  have norm: "normalize_uploaded_data L df source_type =
           Inr \<lparr> fcolumns = ''date'' # normalized_columns,
                 frows = filter (\<lambda>t. \<not> all_na t) (map (monzo_row L df) (rows df)) \<rparr>"
    using assms by (intro normalize_monzo) (simp_all add: has_col_def)
  have formula: "amount_gbp (monzo_row L df r)
               = Some (fillna0 (to_numeric L (r ''Money In'')) - \<bar>fillna0 (to_numeric L (r ''Money Out''))\<bar>)"
    using assms by (simp add: monzo_row_def monzo_amount_def has_col_def)
  have mem: "monzo_row L df r \<in> set (frows \<lparr> fcolumns = ''date'' # normalized_columns,
                 frows = filter (\<lambda>t. \<not> all_na t) (map (monzo_row L df) (rows df)) \<rparr>)"
    using keep assms(5) by simp
  show ?thesis
    using amt inc norm formula mem by blast
qed

theorem monzo_money_out_scenario_witness:
  "\<exists>normalized. normalize_uploaded_data demo_lib monzo_ex ''csv'' = Inr normalized
     \<and> monzo_row demo_lib monzo_ex (hd (rows monzo_ex)) \<in> set (frows normalized)
     \<and> amount_gbp (monzo_row demo_lib monzo_ex (hd (rows monzo_ex))) = Some (- (25 / 2))
     \<and> is_income (monzo_row demo_lib monzo_ex (hd (rows monzo_ex))) = False"
proof -
  have cols: "''Date'' \<in> set (columns monzo_ex)" "''Amount'' \<notin> set (columns monzo_ex)"
    "''Money Out'' \<in> set (columns monzo_ex)" "''Money In'' \<in> set (columns monzo_ex)"
    by (simp_all add: monzo_ex_def)
  have r: "hd (rows monzo_ex) \<in> set (rows monzo_ex)" "hd (rows monzo_ex) ''Money In'' = Num 0"
    "hd (rows monzo_ex) ''Money Out'' = Num (25 / 2)"
    by (simp_all add: monzo_ex_def)
  show ?thesis
    using monzo_money_out_scenario [OF cols r, of demo_lib "''csv''"] by blast
qed

text \<open>
  C5: a TravelWallet row whose type field is the Korean word for a top-up and whose
  amount is 50000 KRW is normalized, at the rate 1/1750, to a record with a positive
  \<open>amount_gbp\<close> within 0.01 of 28.57 and \<open>is_income = True\<close>. Amounts are exact rationals
  here, so the rounding of the floating-point product is not part of the statement.
\<close>

theorem korean_charge_scenario:
  assumes "''Transaction ID'' \<notin> set (columns df)" and "''Date'' \<notin> set (columns df)"
    and "type_col df = Some c" and "r \<in> set (rows df)"
    and "r c = Str kw_charge" and "krw_amount L df r = Some 50000"
  shows "\<exists>normalized a. normalize_uploaded_data L df source_type = Inr normalized
           \<and> korean_row L df r \<in> set (frows normalized)
           \<and> amount_gbp (korean_row L df r) = Some a \<and> 0 < a \<and> \<bar>a - 2857 / 100\<bar> < 1 / 100
           \<and> a = 50000 * KRW_TO_GBP_RATE
           \<and> original_amount (korean_row L df r) = Some 50000
           \<and> is_income (korean_row L df r) = True"
proof -
  have "c \<in> set (columns df)" and "contains c kw_type"
    using assms(3) by (auto simp: type_col_def find_Some_iff)
  then have kor: "list_ex is_korean_col (columns df)"
    by (auto simp: list_ex_iff is_korean_col_def)
  have inc: "korean_is_income L df r"
    using assms(3,5) by (simp add: korean_is_income_def astype_str_def contains_charge_def kw_charge_def)
  have amt: "amount_gbp (korean_row L df r) = Some (50000 * KRW_TO_GBP_RATE)"
    using inc assms(6) by (simp add: korean_row_def korean_amount_gbp_def)
  have orig: "original_amount (korean_row L df r) = Some 50000"
    using assms(6) by (simp add: korean_row_def)
  have keep: "\<not> all_na (korean_row L df r)"
    using amt by (simp add: all_na_def)
  have norm: "normalize_uploaded_data L df source_type =
           Inr \<lparr> fcolumns = ''date'' # normalized_columns,
                 frows = filter (\<lambda>t. \<not> all_na t) (map (korean_row L df) (rows df)) \<rparr>"
    using assms(1,2) kor by (intro normalize_korean) (simp_all add: has_col_def)
  have approx: "0 < 50000 * KRW_TO_GBP_RATE" "\<bar>50000 * KRW_TO_GBP_RATE - 2857 / 100\<bar> < 1 / 100"
    by (simp_all add: KRW_TO_GBP_RATE_def)
  have inc': "is_income (korean_row L df r) = True"
    using inc by (simp add: korean_row_def)
  have mem: "korean_row L df r \<in> set (frows \<lparr> fcolumns = ''date'' # normalized_columns,
                 frows = filter (\<lambda>t. \<not> all_na t) (map (korean_row L df) (rows df)) \<rparr>)"
    using keep assms(4) by simp
  show ?thesis
    using amt orig norm approx inc' mem by blast
qed

theorem korean_charge_scenario_witness:
  "\<exists>normalized a. normalize_uploaded_data demo_lib korean_ex ''excel'' = Inr normalized
     \<and> korean_row demo_lib korean_ex (hd (rows korean_ex)) \<in> set (frows normalized)
     \<and> amount_gbp (korean_row demo_lib korean_ex (hd (rows korean_ex))) = Some a \<and> 0 < a
     \<and> \<bar>a - 2857 / 100\<bar> < 1 / 100"
proof -
  have tc: "type_col korean_ex = Some kw_type"
    by (simp add: type_col_def korean_ex_def kw_defs)
  have kc: "krw_col korean_ex = Some kw_krw_amount"
    by (simp add: krw_col_def korean_ex_def kw_defs)
  have amt: "krw_amount demo_lib korean_ex (hd (rows korean_ex)) = Some 50000"
    unfolding krw_amount_def kc
    by (simp add: korean_ex_def kw_defs astype_str_def remove_char_def demo_lib_def
        nat_of_string_def digit_val_def)
  have cols: "''Transaction ID'' \<notin> set (columns korean_ex)" "''Date'' \<notin> set (columns korean_ex)"
    by (simp_all add: korean_ex_def kw_defs)
  have r: "hd (rows korean_ex) \<in> set (rows korean_ex)" "hd (rows korean_ex) kw_type = Str kw_charge"
    by (simp_all add: korean_ex_def kw_defs)
  show ?thesis
    using korean_charge_scenario [OF cols tc r amt, of "''excel''"] by blast
qed

subsection \<open>The sign of the amount\<close>

lemma normalize_monzo_cases:
  assumes "has_col df ''Transaction ID'' \<or> has_col df ''Date''"
    and "normalize_uploaded_data L df s = Inr normalized"
  shows "has_col df ''Date''"
    and "has_col df ''Amount'' \<or> (has_col df ''Money Out'' \<and> has_col df ''Money In'')"
  using assms
  by (auto simp add: normalize_uploaded_data_def select_branch_def monzo_branch_def
      dropna_date_amount_def normalized_columns_def split: if_splits)

lemma korean_sign:
  "amount_gbp (korean_row L df r) \<noteq> None \<Longrightarrow> sign_agrees (korean_row L df r)"
  by (cases "krw_amount L df r")
    (auto simp add: korean_row_def korean_amount_gbp_def sign_agrees_def gt0_def
      KRW_TO_GBP_RATE_def Let_def split: if_splits)

lemma generic_sign: "is_income (generic_row L df r) = gt0 (amount_gbp (generic_row L df r))"
  by (simp add: generic_row_def Let_def)

text \<open>
  C1, as amended. In the output of \<open>normalize_uploaded_data\<close>: for the generic branch and
  for the Monzo branch on a table without a \<open>Money In\<close> column, \<open>is_income\<close> is
  \<open>amount_gbp > 0\<close>; for the Korean branch, \<open>is_income\<close> agrees with the sign of \<open>amount_gbp\<close>
  whenever the amount is a number other than 0; for the Monzo branch on a table with a
  \<open>Money In\<close> column, \<open>is_income\<close> is \<open>Money In > 0\<close> of the row, whatever the sign of the
  amount. Nothing is stated about \<open>load_korean_excel\<close>.
\<close>

theorem sign_of_normalized_records:
  assumes "normalize_uploaded_data L df source_type = Inr normalized"
    and "t \<in> set (frows normalized)"
  shows "((''Transaction ID'' \<in> set (columns df) \<or> ''Date'' \<in> set (columns df))
            \<and> ''Money In'' \<notin> set (columns df)
          \<longrightarrow> is_income t = gt0 (amount_gbp t))
       \<and> ((''Transaction ID'' \<in> set (columns df) \<or> ''Date'' \<in> set (columns df))
            \<and> ''Money In'' \<in> set (columns df)
          \<longrightarrow> (\<exists>r \<in> set (rows df). t = monzo_row L df r
                 \<and> is_income t = (fillna0 (to_numeric L (r ''Money In'')) > 0)))
       \<and> (''Transaction ID'' \<notin> set (columns df) \<and> ''Date'' \<notin> set (columns df)
            \<and> list_ex is_korean_col (columns df) \<and> amount_gbp t \<noteq> None
          \<longrightarrow> sign_agrees t)
       \<and> (''Transaction ID'' \<notin> set (columns df) \<and> ''Date'' \<notin> set (columns df)
            \<and> \<not> list_ex is_korean_col (columns df)
          \<longrightarrow> is_income t = gt0 (amount_gbp t))"
proof (intro conjI impI)
  assume m: "(''Transaction ID'' \<in> set (columns df) \<or> ''Date'' \<in> set (columns df))
            \<and> ''Money In'' \<notin> set (columns df)"
  then have "has_col df ''Transaction ID'' \<or> has_col df ''Date''"
    by (simp add: has_col_def)
  from normalize_monzo_cases [OF this assms(1)] normalize_monzo [of df L source_type]
  have "frows normalized = filter (\<lambda>t. \<not> all_na t) (map (monzo_row L df) (rows df))"
    using assms(1) by simp
  then obtain r where "t = monzo_row L df r"
    using assms(2) by auto
  then show "is_income t = gt0 (amount_gbp t)"
    using m by (simp add: monzo_row_def has_col_def)
next
  assume m: "(''Transaction ID'' \<in> set (columns df) \<or> ''Date'' \<in> set (columns df))
            \<and> ''Money In'' \<in> set (columns df)"
  then have "has_col df ''Transaction ID'' \<or> has_col df ''Date''"
    by (simp add: has_col_def)
  from normalize_monzo_cases [OF this assms(1)] normalize_monzo [of df L source_type]
  have "frows normalized = filter (\<lambda>t. \<not> all_na t) (map (monzo_row L df) (rows df))"
    using assms(1) by simp
  then obtain r where r: "r \<in> set (rows df)" "t = monzo_row L df r"
    using assms(2) by auto
  then have "is_income t = (fillna0 (to_numeric L (r ''Money In'')) > 0)"
    using m by (simp add: monzo_row_def has_col_def)
  then show "\<exists>r \<in> set (rows df). t = monzo_row L df r
                 \<and> is_income t = (fillna0 (to_numeric L (r ''Money In'')) > 0)"
    using r by blast
next
  assume k: "''Transaction ID'' \<notin> set (columns df) \<and> ''Date'' \<notin> set (columns df)
            \<and> list_ex is_korean_col (columns df) \<and> amount_gbp t \<noteq> None"
  then have "normalize_uploaded_data L df source_type =
           Inr \<lparr> fcolumns = ''date'' # normalized_columns,
                 frows = filter (\<lambda>t. \<not> all_na t) (map (korean_row L df) (rows df)) \<rparr>"
    by (intro normalize_korean) (simp_all add: has_col_def)
  then have "frows normalized = filter (\<lambda>t. \<not> all_na t) (map (korean_row L df) (rows df))"
    using assms(1) by simp
  then obtain r where "t = korean_row L df r"
    using assms(2) by auto
  then show "sign_agrees t"
    using k korean_sign by blast
next
  assume g: "''Transaction ID'' \<notin> set (columns df) \<and> ''Date'' \<notin> set (columns df)
            \<and> \<not> list_ex is_korean_col (columns df)"
  then have "normalize_uploaded_data L df source_type =
           Inr \<lparr> fcolumns = ''date'' # normalized_columns,
                 frows = filter (\<lambda>t. \<not> all_na t) (frows (generic_branch L df)) \<rparr>"
    by (intro normalize_generic) (simp_all add: has_col_def)
  then have "frows normalized = filter (\<lambda>t. \<not> all_na t) (frows (generic_branch L df))"
    using assms(1) by simp
  then obtain r where "t = generic_row L df r"
    using assms(2) by (auto simp: generic_branch_def split: if_splits)
  then show "is_income t = gt0 (amount_gbp t)"
    using generic_sign by simp
qed

theorem sign_of_normalized_records_witness:
  "\<exists>normalized t. normalize_uploaded_data demo_lib korean_ex ''excel'' = Inr normalized
     \<and> t \<in> set (frows normalized) \<and> amount_gbp t = Some (200 / 7) \<and> is_income t
     \<and> sign_agrees t"
proof -
  define t where "t = \<lparr> date = Some \<lparr> year = 2024, month = 1, day = 15 \<rparr>, time = Str [],
            bank = Str ''TravelWallet (Korea)'', type = Str kw_charge,
            merchant = Str ''Cafe'', category = Str ''Cafe'',
            amount_gbp = Some (200 / 7), original_currency = Str ''KRW'',
            original_amount = Some 50000, is_income = True \<rparr>"
  have eval: "normalize_uploaded_data demo_lib korean_ex ''excel'' =
     Inr \<lparr> fcolumns = ''date'' # normalized_columns, frows = [t] \<rparr>"
    by (simp add: t_def korean_ex_def kw_defs normalize_defs cell_defs demo_defs string_defs)
  have mem: "t \<in> set (frows \<lparr> fcolumns = ''date'' # normalized_columns, frows = [t] \<rparr>)"
    by simp
  have cols: "''Transaction ID'' \<notin> set (columns korean_ex) \<and> ''Date'' \<notin> set (columns korean_ex)
            \<and> list_ex is_korean_col (columns korean_ex) \<and> amount_gbp t \<noteq> None"
    by (simp add: t_def korean_ex_def kw_defs is_korean_col_def)
  have "sign_agrees t"
    using sign_of_normalized_records [OF eval mem] cols by blast
  moreover have "amount_gbp t = Some (200 / 7)" "is_income t"
    by (simp_all add: t_def)
  ultimately show ?thesis
    using eval mem by blast
qed

text \<open>
  The claim C1 as stated fails on a Monzo table whose \<open>Amount\<close> is negative while
  \<open>Money In\<close> is positive: the record has \<open>amount_gbp = -5\<close> and \<open>is_income = True\<close>.
\<close>

theorem sign_counterexample:
  "normalize_uploaded_data demo_lib monzo_conflict ''csv'' =
     Inr \<lparr> fcolumns = ''date'' # normalized_columns,
           frows = [\<lparr> date = Some \<lparr> year = 2024, month = 2, day = 3 \<rparr>, time = Str [],
                      bank = Str ''Monzo'', type = Str [], merchant = Str [],
                      category = Str ''Other'', amount_gbp = Some (- 5),
                      original_currency = Str ''GBP'', original_amount = Some (- 5),
                      is_income = True \<rparr>] \<rparr>
   \<and> \<not> sign_agrees \<lparr> date = Some \<lparr> year = 2024, month = 2, day = 3 \<rparr>, time = Str [],
                      bank = Str ''Monzo'', type = Str [], merchant = Str [],
                      category = Str ''Other'', amount_gbp = Some (- 5),
                      original_currency = Str ''GBP'', original_amount = Some (- 5),
                      is_income = True \<rparr>"
  by (simp add: monzo_conflict_def sign_agrees_def normalize_defs cell_defs demo_defs)

subsection \<open>A transaction id without a date\<close>

text \<open>
  C10, as amended. On a table that has a \<open>Transaction ID\<close> column and no \<open>Date\<close> column
  the Monzo branch is selected, it assigns no \<open>date\<close> column, and \<open>normalize_uploaded_data\<close>
  raises instead of returning: at the final row-drop step (a \<open>KeyError\<close> for \<open>date\<close>) when
  the table has an \<open>Amount\<close> column or both \<open>Money Out\<close> and \<open>Money In\<close>, and before that
  step, when the amount column is read, otherwise.
\<close>

theorem transaction_id_without_date_raises:
  assumes "''Transaction ID'' \<in> set (columns df)" and "''Date'' \<notin> set (columns df)"
  shows "select_branch L df = monzo_branch L df
       \<and> (\<forall>normalized. monzo_branch L df = Inr normalized \<longrightarrow> ''date'' \<notin> set (fcolumns normalized))
       \<and> normalize_uploaded_data L df source_type =
           (if ''Amount'' \<in> set (columns df)
               \<or> (''Money Out'' \<in> set (columns df) \<and> ''Money In'' \<in> set (columns df))
            then Inl (KeyErrorList [''date''])
            else if ''Money Out'' \<in> set (columns df) then Inl (KeyError ''Money In'')
            else Inl (KeyError ''amount_gbp''))"
proof (intro conjI allI impI)
  show sel: "select_branch L df = monzo_branch L df"
    using assms by (simp add: select_branch_def has_col_def)
  show "''date'' \<notin> set (fcolumns normalized)" if "monzo_branch L df = Inr normalized" for normalized
    using that assms(2)
    by (auto simp add: monzo_branch_def has_col_def normalized_columns_def split: if_splits)
  show "normalize_uploaded_data L df source_type =
           (if ''Amount'' \<in> set (columns df)
               \<or> (''Money Out'' \<in> set (columns df) \<and> ''Money In'' \<in> set (columns df))
            then Inl (KeyErrorList [''date''])
            else if ''Money Out'' \<in> set (columns df) then Inl (KeyError ''Money In'')
            else Inl (KeyError ''amount_gbp''))"
    using assms(2)
    by (auto simp add: normalize_uploaded_data_def sel monzo_branch_def has_col_def
        dropna_date_amount_def normalized_columns_def)
qed

theorem transaction_id_without_date_raises_witness:
  "select_branch demo_lib tid_amount = monzo_branch demo_lib tid_amount
   \<and> normalize_uploaded_data demo_lib tid_amount ''csv'' = Inl (KeyErrorList [''date''])"
proof -
  have cols: "''Transaction ID'' \<in> set (columns tid_amount)" "''Date'' \<notin> set (columns tid_amount)"
    by (simp_all add: tid_amount_def)
  have "''Amount'' \<in> set (columns tid_amount)"
    by (simp add: tid_amount_def)
  then show ?thesis
    using transaction_id_without_date_raises [OF cols, of demo_lib "''csv''"] by simp
qed

text \<open>
  The claim C10 as stated fails on a table whose only column is \<open>Transaction ID\<close>: the
  branch itself raises \<open>KeyError('amount_gbp')\<close>, so the row-drop step is not reached.
\<close>

theorem tid_only_counterexample:
  "select_branch demo_lib tid_only = Inl (KeyError ''amount_gbp'')
   \<and> normalize_uploaded_data demo_lib tid_only ''csv'' = Inl (KeyError ''amount_gbp'')
   \<and> normalize_uploaded_data demo_lib tid_only ''csv'' \<noteq> Inl (KeyErrorList [''date''])"
  by (simp add: tid_only_def normalize_defs cell_defs)

subsection \<open>Rows that are dropped\<close>

lemma normalize_independent_of_rows:
  assumes "normalize_uploaded_data L df s = Inr normalized"
  shows "\<exists>normalized'. normalize_uploaded_data L' (df \<lparr> rows := rs \<rparr>) s = Inr normalized'"
  using assms
  by (auto simp add: normalize_uploaded_data_def select_branch_def monzo_branch_def has_col_def
      dropna_date_amount_def normalized_columns_def korean_branch_def generic_branch_def
      split: if_splits)

lemma select_branch_rows:
  assumes "select_branch L df = Inr pre"
  shows "frows pre = map (monzo_row L df) (rows df) \<or> frows pre = map (korean_row L df) (rows df)
       \<or> frows pre = map (generic_row L df) (rows df) \<or> frows pre = []"
  using assms
  by (auto simp add: select_branch_def monzo_branch_def korean_branch_def generic_branch_def
      split: if_splits)

text \<open>
  The clean-up of \<open>normalize_uploaded_data\<close>. Whenever the function returns, in each of its
  three branches, its output is the rows built by the branch without exactly those in
  which both \<open>date\<close> and \<open>amount_gbp\<close> are missing; a row in which one of the two is present
  is retained. Whether it returns depends on the column labels only: no row, and no
  parsing result, makes it raise.
\<close>

lemma upload_normalizer_drops_rows_missing_both:
  assumes "normalize_uploaded_data L df source_type = Inr normalized"
  shows "\<exists>pre. select_branch L df = Inr pre
          \<and> frows normalized = filter (\<lambda>t. date t \<noteq> None \<or> amount_gbp t \<noteq> None) (frows pre)
          \<and> (\<forall>t \<in> set (frows pre).
                t \<in> set (frows normalized) \<longleftrightarrow> (date t \<noteq> None \<or> amount_gbp t \<noteq> None))
          \<and> (frows pre = map (monzo_row L df) (rows df) \<or> frows pre = map (korean_row L df) (rows df)
               \<or> frows pre = map (generic_row L df) (rows df) \<or> frows pre = [])
          \<and> (\<forall>L' rs. \<exists>normalized'.
                normalize_uploaded_data L' (df \<lparr> rows := rs \<rparr>) source_type = Inr normalized')"
proof -
  obtain pre where pre: "select_branch L df = Inr pre"
    using assms by (auto simp add: normalize_uploaded_data_def split: sum.splits)
  then have "dropna_date_amount pre = Inr normalized"
    using assms by (simp add: normalize_uploaded_data_def)
  then have rows: "frows normalized = filter (\<lambda>t. date t \<noteq> None \<or> amount_gbp t \<noteq> None) (frows pre)"
    by (auto simp add: dropna_date_amount_def all_na_def Let_def split: if_splits)
  then have mem: "\<forall>t \<in> set (frows pre).
                t \<in> set (frows normalized) \<longleftrightarrow> (date t \<noteq> None \<or> amount_gbp t \<noteq> None)"
    by simp
  show ?thesis
    using pre rows mem select_branch_rows [OF pre] normalize_independent_of_rows [OF assms]
    by blast
qed

lemma upload_normalizer_drops_rows_example:
  "\<exists>pre normalized. normalize_uploaded_data demo_lib monzo_dirty ''csv'' = Inr normalized
     \<and> select_branch demo_lib monzo_dirty = Inr pre
     \<and> frows normalized = filter (\<lambda>t. date t \<noteq> None \<or> amount_gbp t \<noteq> None) (frows pre)
     \<and> length (frows pre) = 4 \<and> map date (frows normalized) = [Some \<lparr> year = 2024, month = 2, day = 3 \<rparr>, None, Some \<lparr> year = 2024, month = 2, day = 4 \<rparr>]
     \<and> map amount_gbp (frows normalized) = [Some 5, Some 7, None]"
proof -
  obtain normalized where n: "normalize_uploaded_data demo_lib monzo_dirty ''csv'' = Inr normalized"
    and d: "map date (frows normalized) = [Some \<lparr> year = 2024, month = 2, day = 3 \<rparr>, None, Some \<lparr> year = 2024, month = 2, day = 4 \<rparr>]"
    and a:  "map amount_gbp (frows normalized) = [Some 5, Some 7, None]"
    by (simp add: monzo_dirty_def normalize_defs cell_defs demo_defs)
  from upload_normalizer_drops_rows_missing_both [OF n]
  obtain pre where pre: "select_branch demo_lib monzo_dirty = Inr pre"
    "frows normalized = filter (\<lambda>t. date t \<noteq> None \<or> amount_gbp t \<noteq> None) (frows pre)"
    by blast
  have "length (frows pre) = 4"
    using pre(1) by (auto simp add: monzo_dirty_def select_branch_def monzo_branch_def has_col_def)
  then show ?thesis
    by (intro exI [of _ pre] exI [of _ normalized] conjI n d a pre)
qed

text \<open>
  C9: every normalizer has to drop the rows in which both the date and the amount are
  missing. \<open>load_korean_excel\<close> has no such step: the second row of the sheet has neither
  a date nor an amount, and it is in the output of the loader, as a spending record
  without amount. \<open>normalize_uploaded_data\<close> on the same sheet returns the first row
  only.
\<close>

theorem loader_keeps_empty_row:
  "load_korean_excel demo_lib (Some (Inr tw_dirty)) =
     Inr [\<lparr> date = Some \<lparr> year = 2024, month = 1, day = 15 \<rparr>, time = Str [],
            bank = Str ''TravelWallet (Korea)'', type = Str kw_payment,
            merchant = Str ''Cafe'', category = Str ''Cafe'',
            amount_gbp = Some (200 / 7), original_currency = Str ''KRW'',
            original_amount = Some 50000, is_income = False \<rparr>,
          \<lparr> date = None, time = Str [],
            bank = Str ''TravelWallet (Korea)'', type = Str kw_payment,
            merchant = Str ''Cafe'', category = Str ''Cafe'',
            amount_gbp = None, original_currency = Str ''KRW'',
            original_amount = None, is_income = False \<rparr>]
   \<and> map (\<lambda>t. (date t, amount_gbp t))
         (case normalize_uploaded_data demo_lib tw_dirty ''excel'' of
            Inl e \<Rightarrow> [] | Inr normalized \<Rightarrow> frows normalized)
       = [(Some \<lparr> year = 2024, month = 1, day = 15 \<rparr>, Some (- (200 / 7)))]"
  by (simp add: tw_dirty_def kw_defs loader_defs normalize_defs cell_defs demo_defs string_defs)

section \<open>The sign convention in \<open>load_korean_excel\<close>\<close>

text \<open>
  In the Korean branch of \<open>normalize_uploaded_data\<close> the type decides the sign: a type that
  contains the top-up marker gives a non-negative amount and \<open>is_income = True\<close>, any other
  type a non-positive amount and \<open>is_income = False\<close>.
\<close>

lemma upload_korean_sign_rule:
  "is_income (korean_row L df r) = korean_is_income L df r
   \<and> amount_gbp (korean_row L df r) =
       (if korean_is_income L df r
        then map_option (\<lambda>k. \<bar>k\<bar> * KRW_TO_GBP_RATE) (krw_amount L df r)
        else map_option (\<lambda>k. - (\<bar>k\<bar> * KRW_TO_GBP_RATE)) (krw_amount L df r))"
  by (cases "krw_amount L df r")
    (simp_all add: korean_row_def korean_amount_gbp_def KRW_TO_GBP_RATE_def)

text \<open>
  C4: the rule holds in \<open>normalize_uploaded_data\<close> and not in \<open>load_korean_excel\<close>. On a
  sheet with a payment and a top-up of 50000 KRW each, \<open>load_korean_excel\<close> returns
  \<open>amount_gbp = +200/7\<close> and \<open>is_income = False\<close> for both rows: the payment is not made
  negative, and the Korean top-up marker is not recognised, the type being compared
  with \<open>charge\<close> for equality. \<open>normalize_uploaded_data\<close> gives \<open>-200/7\<close>, \<open>False\<close> and
  \<open>+200/7\<close>, \<open>True\<close> on the same sheet.
\<close>

theorem loader_keeps_positive_payment:
  "load_korean_excel demo_lib (Some (Inr tw_payment)) =
     Inr [\<lparr> date = Some \<lparr> year = 2024, month = 1, day = 15 \<rparr>, time = Str [],
            bank = Str ''TravelWallet (Korea)'', type = Str kw_payment,
            merchant = Str ''Cafe'', category = Str ''Cafe'',
            amount_gbp = Some (200 / 7), original_currency = Str ''KRW'',
            original_amount = Some 50000, is_income = False \<rparr>,
          \<lparr> date = Some \<lparr> year = 2024, month = 1, day = 16 \<rparr>, time = Str [],
            bank = Str ''TravelWallet (Korea)'', type = Str kw_charge,
            merchant = Str ''Bank'', category = Str ''Bank'',
            amount_gbp = Some (200 / 7), original_currency = Str ''KRW'',
            original_amount = Some 50000, is_income = False \<rparr>]
   \<and> map (\<lambda>t. (amount_gbp t, is_income t))
         (case normalize_uploaded_data demo_lib tw_payment ''excel'' of
            Inl e \<Rightarrow> [] | Inr normalized \<Rightarrow> frows normalized)
       = [(Some (- (200 / 7)), False), (Some (200 / 7), True)]"
  by (simp add: tw_payment_def kw_defs loader_defs normalize_defs cell_defs demo_defs string_defs)

section \<open>Header-row detection\<close>

lemma row_has_marker_iff:
  "row_has_marker L row \<longleftrightarrow>
     (\<exists>v \<in> set row. v \<noteq> Missing
        \<and> (contains (astype_str L v) kw_date \<or> contains (astype_str L v) kw_type
            \<or> contains (astype_str L v) kw_merchant))"
  by (auto simp add: row_has_marker_def list_ex_iff)

lemma header_row_Some_iff:
  "header_row L test_df = Some i \<longleftrightarrow>
     (i < 15 \<and> i < length test_df \<and> row_has_marker L (test_df ! i)
      \<and> (\<forall>j<i. \<not> row_has_marker L (test_df ! j)))"
  by (auto simp add: header_row_def find_Some_iff)

lemma header_row_None_iff:
  "header_row L test_df = None \<longleftrightarrow>
     (\<forall>i. i < 15 \<and> i < length test_df \<longrightarrow> \<not> row_has_marker L (test_df ! i))"
  by (auto simp add: header_row_def find_None_iff)

lemma header_row_take: "header_row L (take 15 test_df) = header_row L test_df"
proof -
  have "find (\<lambda>i. row_has_marker L (take 15 test_df ! i)) [0 ..< min 15 (length test_df)]
        = find (\<lambda>i. row_has_marker L (test_df ! i)) [0 ..< min 15 (length test_df)]"
    by (rule find_cong) auto
  then show ?thesis
    by (simp add: header_row_def min.commute)
qed

lemma read_upload_excel:
  assumes "\<not> endswith fname ''.csv''" and "endswith fname ''.xlsx'' \<or> endswith fname ''.xls''"
    and "\<not> is_encrypted content" and "read_excel_openpyxl L content = Inr new_df"
  shows "read_upload L fname content =
           (case normalize_uploaded_data L new_df ''excel'' of
              Inl e \<Rightarrow> Inl (Error 500 (Exception e))
            | Inr normalized \<Rightarrow> Inr normalized)"
  using assms by (simp add: read_upload_def)

text \<open>
  C8: the header row of a workbook is searched among the rows read with \<open>nrows=15\<close> and
  among the first 15 of them; the index found is the first row with a cell, not
  missing, whose text contains the Korean word for date, type or merchant; when there
  is none, the workbook is read again in the default way, with the top row as the
  header. In both cases the table then goes through \<open>normalize_uploaded_data\<close> as any
  upload does (\<open>read_upload_excel\<close>), which is the generic path of the claim: the branch
  of the normalizer is chosen from the column labels.
\<close>

theorem header_row_detection:
  "(header_row L test_df = Some i \<longleftrightarrow>
      (i < 15 \<and> i < length test_df \<and> row_has_marker L (test_df ! i)
       \<and> (\<forall>j<i. \<not> row_has_marker L (test_df ! j))))
   \<and> (header_row L test_df = None \<longleftrightarrow>
      (\<forall>i. i < 15 \<and> i < length test_df \<longrightarrow> \<not> row_has_marker L (test_df ! i)))
   \<and> header_row L (take 15 test_df) = header_row L test_df
   \<and> (row_has_marker L row \<longleftrightarrow>
        (\<exists>v \<in> set row. v \<noteq> Missing
           \<and> (contains (astype_str L v) kw_date \<or> contains (astype_str L v) kw_type
               \<or> contains (astype_str L v) kw_merchant)))
   \<and> (read_excel_raw L content 15 = Inr test_df \<and> header_row L test_df = Some i
        \<longrightarrow> read_excel_openpyxl L content = read_excel L content i)
   \<and> (read_excel_raw L content 15 = Inr test_df \<and> header_row L test_df = None
        \<longrightarrow> read_excel_openpyxl L content = read_excel L content 0)"
proof (intro conjI)
  show "read_excel_raw L content 15 = Inr test_df \<and> header_row L test_df = Some i
        \<longrightarrow> read_excel_openpyxl L content = read_excel L content i"
    by (simp add: read_excel_openpyxl_def)
  show "read_excel_raw L content 15 = Inr test_df \<and> header_row L test_df = None
        \<longrightarrow> read_excel_openpyxl L content = read_excel L content 0"
    by (simp add: read_excel_openpyxl_def)
qed (rule header_row_Some_iff header_row_None_iff header_row_take row_has_marker_iff)+

lemma tw_sheet_nth:
  "j < 12 \<Longrightarrow> tw_sheet ! j = [Str ''TravelWallet statement'', Missing, Num 2024]"
  "tw_sheet ! 12 = [Str kw_date, Str kw_type, Str kw_merchant, Str kw_krw_amount]"
  "length tw_sheet = 14"
  by (simp_all add: tw_sheet_def nth_append)

theorem header_row_detection_witness:
  "header_row (sheet_lib tw_sheet) tw_sheet = Some 12
   \<and> map_sum id columns (read_excel_openpyxl (sheet_lib tw_sheet) [])
       = Inr [kw_date, kw_type, kw_merchant, kw_krw_amount]"
proof -
  have pre: "\<not> row_has_marker (sheet_lib tw_sheet) [Str ''TravelWallet statement'', Missing, Num 2024]"
    by (simp add: row_has_marker_def astype_str_def sheet_lib_def kw_defs demo_defs)
  have hdr: "row_has_marker (sheet_lib tw_sheet)
               [Str kw_date, Str kw_type, Str kw_merchant, Str kw_krw_amount]"
    by (simp add: row_has_marker_def astype_str_def kw_defs)
  have one: "header_row (sheet_lib tw_sheet) tw_sheet = Some 12"
    using header_row_detection [of "sheet_lib tw_sheet" tw_sheet 12] pre hdr
    by (simp add: tw_sheet_nth)
  have raw: "read_excel_raw (sheet_lib tw_sheet) [] 15 = Inr tw_sheet"
    by (simp add: sheet_lib_def tw_sheet_nth)
  have "read_excel_openpyxl (sheet_lib tw_sheet) [] = read_excel (sheet_lib tw_sheet) [] 12"
    using header_row_detection [of "sheet_lib tw_sheet" tw_sheet 12 _ "[]"] raw one by blast
  then show ?thesis
    using one by (simp add: sheet_lib_def tw_sheet_nth astype_str_def Let_def)
qed

section \<open>Merging and the ledger store\<close>

subsection \<open>Removing duplicates\<close>

lemma set_drop_duplicates_from: "set (drop_duplicates_from seen xs) = set xs - set seen"
  by (induction xs arbitrary: seen) auto

lemma distinct_drop_duplicates_from: "distinct (drop_duplicates_from seen xs)"
  by (induction xs arbitrary: seen) (auto simp add: set_drop_duplicates_from)

lemma drop_duplicates_from_cong:
  "set seen = set seen' \<Longrightarrow> drop_duplicates_from seen xs = drop_duplicates_from seen' xs"
proof (induction xs arbitrary: seen seen')
  case Nil
  show ?case by simp
next
  case (Cons x xs)
  have "set (x # seen) = set (x # seen')"
    using Cons.prems by simp
  then have "drop_duplicates_from (x # seen) xs = drop_duplicates_from (x # seen') xs"
    by (rule Cons.IH)
  moreover have "drop_duplicates_from seen xs = drop_duplicates_from seen' xs"
    using Cons.prems by (rule Cons.IH)
  ultimately show ?case
    using Cons.prems by simp
qed

lemma drop_duplicates_from_removeAll:
  "drop_duplicates_from (x # seen) xs = drop_duplicates_from seen (removeAll x xs)"
proof (induction xs arbitrary: seen)
  case Nil
  show ?case by simp
next
  case (Cons y ys)
  show ?case
  proof (cases "y = x")
    case True
    then show ?thesis using Cons.IH by simp
  next
    case False
    have swap: "drop_duplicates_from (y # x # seen) ys = drop_duplicates_from (x # y # seen) ys"
      by (rule drop_duplicates_from_cong) auto
    show ?thesis
      using False Cons.IH [of seen] Cons.IH [of "y # seen"] swap by simp
  qed
qed

lemma drop_duplicates_Cons: "drop_duplicates (x # xs) = x # drop_duplicates (removeAll x xs)"
  by (simp add: drop_duplicates_def drop_duplicates_from_removeAll)

subsection \<open>Sorting by date\<close>

lemma date_le_total: "date_le a b \<or> date_le b a"
  by (auto simp add: date_le_def date_less_eq_def split: option.splits)

lemma date_le_trans: "date_le a b \<Longrightarrow> date_le b c \<Longrightarrow> date_le a c"
  by (auto simp add: date_le_def date_less_eq_def split: option.splits)

lemma mset_insort_date: "mset (insort_date t ts) = add_mset t (mset ts)"
  by (induction ts) auto

lemma set_insort_date: "set (insort_date t ts) = insert t (set ts)"
  by (induction ts) auto

lemma sorted_insort_date: "sorted_by_date ts \<Longrightarrow> sorted_by_date (insort_date t ts)"
proof (induction ts)
  case Nil
  show ?case by (simp add: sorted_by_date_def)
next
  case (Cons u us)
  show ?case
  proof (cases "date_le (date t) (date u)")
    case True
    then show ?thesis
      using Cons.prems date_le_trans by (fastforce simp add: sorted_by_date_def)
  next
    case False
    then have "date_le (date u) (date t)"
      using date_le_total by blast
    then show ?thesis
      using False Cons by (auto simp add: sorted_by_date_def set_insort_date)
  qed
qed

lemma mset_sort_values_date: "mset (sort_values_date ts) = mset ts"
  by (induction ts) (simp_all add: sort_values_date_def mset_insort_date)

lemma sorted_sort_values_date: "sorted_by_date (sort_values_date ts)"
proof (induction ts)
  case Nil
  show ?case by (simp add: sort_values_date_def sorted_by_date_def)
next
  case (Cons t ts)
  then show ?case
    using sorted_insort_date [of "sort_values_date ts" t] by (simp add: sort_values_date_def)
qed

lemma normalize_and_merge_eq: "normalize_and_merge m k = sort_values_date (m @ k)"
  by (simp add: normalize_and_merge_def sort_values_date_def)


subsection \<open>Loading what was saved\<close>

lemma length_read_csv_column: "length (read_csv_column L texts) = length texts"
  by (simp add: read_csv_column_def)

lemma read_csv_column_na:
  "i < length texts \<Longrightarrow> texts ! i \<in> set na_values \<Longrightarrow> read_csv_column L texts ! i = Missing"
  by (simp add: read_csv_column_def csv_cell_def csv_number_cell_def)

lemma to_datetime_column_Inr:
  "to_datetime_column L cells = Inr ds \<Longrightarrow> ds = map (to_datetime L) cells"
proof (induction cells arbitrary: ds)
  case Nil
  then show ?case by simp
next
  case (Cons c cs)
  then obtain d ds' where d: "to_datetime_raise L c = Inr d"
    and ds': "to_datetime_column L cs = Inr ds'" and ds: "ds = d # ds'"
    by (auto split: sum.splits)
  have "d = to_datetime L c"
    using d by (auto simp add: to_datetime_raise_def to_datetime_def split: cell.splits option.splits)
  then show ?case
    using Cons.IH [OF ds'] ds by simp
qed

lemma to_datetime_column_ok:
  assumes "\<forall>c \<in> set cells. c = Missing \<or> parse_datetime L c \<noteq> None"
  shows "to_datetime_column L cells = Inr (map (to_datetime L) cells)"
  using assms
proof (induction cells)
  case Nil
  show ?case by simp
next
  case (Cons c cs)
  have "to_datetime_raise L c = Inr (to_datetime L c)"
    using Cons.prems
    by (auto simp add: to_datetime_raise_def to_datetime_def split: cell.splits option.splits)
  then show ?case
    using Cons by simp
qed

lemma map_index: "map (\<lambda>i. f (xs ! i)) [0 ..< length xs] = map f xs"
  by (rule nth_equalityI) simp_all

lemma map_index_id: "length xs = n \<Longrightarrow> map (\<lambda>i. xs ! i) [0 ..< n] = xs"
  by (rule nth_equalityI) simp_all

lemma length_loaded_frame: "length (loaded_frame L stored dates) = length stored"
  by (simp add: loaded_frame_def Let_def)

lemma loaded_frame_columns:
  assumes "length dates = length stored"
  shows "map date (loaded_frame L stored dates) = dates"
    and "map time (loaded_frame L stored dates) = read_csv_column L (map csv_time stored)"
    and "map bank (loaded_frame L stored dates) = read_csv_column L (map csv_bank stored)"
    and "map type (loaded_frame L stored dates) = read_csv_column L (map csv_type stored)"
    and "map merchant (loaded_frame L stored dates) = read_csv_column L (map csv_merchant stored)"
    and "map category (loaded_frame L stored dates) = read_csv_column L (map csv_category stored)"
    and "map original_currency (loaded_frame L stored dates)
           = read_csv_column L (map csv_original_currency stored)"
    and "map amount_gbp (loaded_frame L stored dates) = map csv_amount_gbp stored"
    and "map original_amount (loaded_frame L stored dates) = map csv_original_amount stored"
    and "map is_income (loaded_frame L stored dates) = map csv_is_income stored"
  using assms
  by (simp_all add: loaded_frame_def Let_def o_def length_read_csv_column map_index
      map_index_id)

lemma strftime_not_na: "strftime d \<notin> set na_values"
proof
  assume "strftime d \<in> set na_values"
  moreover have "\<forall>s \<in> set na_values. length s < 10"
    by (simp add: na_values_def)
  moreover have "length (strftime d) = 10"
    by (simp add: strftime_def pad2_def pad4_def)
  ultimately show False
    by fastforce
qed

lemma csv_cell_date_text:
  "csv_cell (date_text None) = Missing"
  "csv_cell (date_text (Some x)) = Str (strftime x)"
proof -
  show "csv_cell (date_text None) = Missing"
    by (simp add: csv_cell_def date_text_def na_values_def)
  show "csv_cell (date_text (Some x)) = Str (strftime x)"
    using strftime_not_na [of x] by (simp add: csv_cell_def date_text_def)
qed

lemma csv_date_save_row: "csv_date (save_row L t) = date_text (date t)"
  by (simp add: save_row_def)

lemma load_saved:
  assumes "\<forall>t \<in> set df. \<forall>d. date t = Some d \<longrightarrow> parse_datetime L (Str (strftime d)) \<noteq> None"
  shows "load_combined_csv L (save_combined_csv L df st)
           = Inr (loaded_frame L (map (save_row L) df)
                    (map (\<lambda>t. to_datetime L (csv_cell (date_text (date t)))) df))"
proof -
  have "csv_cell (date_text (date t)) = Missing
          \<or> parse_datetime L (csv_cell (date_text (date t))) \<noteq> None" if "t \<in> set df" for t
    using assms that by (cases "date t") (simp_all add: csv_cell_date_text)
  then have "\<forall>c \<in> set (map (\<lambda>t. csv_cell (date_text (date t))) df).
          c = Missing \<or> parse_datetime L c \<noteq> None"
    by auto
  then have "to_datetime_column L (map (\<lambda>t. csv_cell (date_text (date t))) df)
               = Inr (map (to_datetime L) (map (\<lambda>t. csv_cell (date_text (date t))) df))"
    by (rule to_datetime_column_ok)
  then show ?thesis
    by (simp add: load_combined_csv_def save_combined_csv_def o_def csv_date_save_row)
qed

lemma reread_date_text:
  assumes "\<forall>d. x = Some d \<longrightarrow>
             (\<exists>d'. parse_datetime L (Str (strftime d)) = Some d' \<and> strftime d' = strftime d)"
  shows "date_text (to_datetime L (csv_cell (date_text x))) = date_text x"
proof (cases x)
  case None
  then show ?thesis
    by (simp add: csv_cell_date_text to_datetime_def)
next
  case (Some d)
  then obtain d' where "parse_datetime L (Str (strftime d)) = Some d'" "strftime d' = strftime d"
    using assms by blast
  then show ?thesis
    using Some by (simp add: csv_cell_date_text to_datetime_def) (simp add: date_text_def)
qed

text \<open>
  C3, as amended. Loading the ledger after saving a record set returns one row for each
  saved record, in the saved order, duplicates included: neither saving nor loading
  sorts or removes anything. Each row has the calendar date of the record (the same
  \<open>YYYY-MM-DD\<close> text), its two amounts and its flag. The text columns come back as
  \<open>read_csv\<close> reads the text that was written: in particular an empty string in \<open>time\<close>,
  \<open>type\<close> or \<open>merchant\<close> comes back as \<open>NaN\<close>, so that the rows need not be equal to the
  records saved. This holds when the date parser reads the text written for each date
  as a date of the same day.
\<close>

theorem load_after_save:
  assumes "\<forall>t \<in> set df. \<forall>d. date t = Some d \<longrightarrow>
             (\<exists>d'. parse_datetime L (Str (strftime d)) = Some d' \<and> strftime d' = strftime d)"
  shows "\<exists>df'. load_combined_csv L (save_combined_csv L df st) = Inr df'
           \<and> length df' = length df
           \<and> map (\<lambda>t. date_text (date t)) df' = map (\<lambda>t. date_text (date t)) df
           \<and> map amount_gbp df' = map amount_gbp df
           \<and> map original_amount df' = map original_amount df
           \<and> map is_income df' = map is_income df
           \<and> map time df' = read_csv_column L (map (\<lambda>t. csv_text L (time t)) df)
           \<and> map bank df' = read_csv_column L (map (\<lambda>t. csv_text L (bank t)) df)
           \<and> map type df' = read_csv_column L (map (\<lambda>t. csv_text L (type t)) df)
           \<and> map merchant df' = read_csv_column L (map (\<lambda>t. csv_text L (merchant t)) df)
           \<and> map category df' = read_csv_column L (map (\<lambda>t. csv_text L (category t)) df)
           \<and> map original_currency df'
               = read_csv_column L (map (\<lambda>t. csv_text L (original_currency t)) df)
           \<and> (\<forall>i < length df. time (df ! i) = Str [] \<longrightarrow> time (df' ! i) = Missing)
           \<and> (\<forall>i < length df. type (df ! i) = Str [] \<longrightarrow> type (df' ! i) = Missing)
           \<and> (\<forall>i < length df. merchant (df ! i) = Str [] \<longrightarrow> merchant (df' ! i) = Missing)"
proof -
  define stored where "stored = map (save_row L) df"
  define dates where "dates = map (\<lambda>t. to_datetime L (csv_cell (date_text (date t)))) df"
  define df' where "df' = loaded_frame L stored dates"
  have len: "length dates = length stored" "length stored = length df"
    by (simp_all add: dates_def stored_def)
  have "\<forall>t \<in> set df. \<forall>d. date t = Some d \<longrightarrow> parse_datetime L (Str (strftime d)) \<noteq> None"
    using assms by fastforce
  then have load: "load_combined_csv L (save_combined_csv L df st) = Inr df'"
    unfolding df'_def stored_def dates_def by (rule load_saved)
  have l: "length df' = length df"
    by (simp add: df'_def length_loaded_frame len)
  have "map date_text dates = map (\<lambda>t. date_text (date t)) df"
    unfolding dates_def using assms by (simp add: reread_date_text)
  then have d: "map (\<lambda>t. date_text (date t)) df' = map (\<lambda>t. date_text (date t)) df"
    using loaded_frame_columns(1) [OF len(1), of L] by (simp add: df'_def flip: map_map [unfolded o_def])
  have cols: "map amount_gbp df' = map amount_gbp df"
    "map original_amount df' = map original_amount df"
    "map is_income df' = map is_income df"
    "map time df' = read_csv_column L (map (\<lambda>t. csv_text L (time t)) df)"
    "map bank df' = read_csv_column L (map (\<lambda>t. csv_text L (bank t)) df)"
    "map type df' = read_csv_column L (map (\<lambda>t. csv_text L (type t)) df)"
    "map merchant df' = read_csv_column L (map (\<lambda>t. csv_text L (merchant t)) df)"
    "map category df' = read_csv_column L (map (\<lambda>t. csv_text L (category t)) df)"
    "map original_currency df'
       = read_csv_column L (map (\<lambda>t. csv_text L (original_currency t)) df)"
    using loaded_frame_columns [OF len(1), of L]
    by (simp_all add: df'_def stored_def save_row_def o_def)
  have na: "f (df' ! i) = Missing"
    if "i < length df" and "g (df ! i) = Str []"
      and "map f df' = read_csv_column L (map (\<lambda>t. csv_text L (g t)) df)"
    for i and f g :: "txn \<Rightarrow> cell"
  proof -
    have "map (\<lambda>t. csv_text L (g t)) df ! i \<in> set na_values"
      using that(1,2) by (simp add: csv_text_def na_values_def)
    then have "read_csv_column L (map (\<lambda>t. csv_text L (g t)) df) ! i = Missing"
      using that(1) by (simp add: read_csv_column_na)
    then have "map f df' ! i = Missing"
      using that(3) by simp
    then show ?thesis
      using that(1) l by simp
  qed
  show ?thesis
    using load l d cols na [OF _ _ cols(4)] na [OF _ _ cols(6)] na [OF _ _ cols(7)]
    by (intro exI [of _ df']) simp
qed


lemma demo_reads_back_examples:
  "\<forall>t \<in> set [txn_mar, txn_plain, txn_jan, txn_jan]. \<forall>d. date t = Some d \<longrightarrow>
     (\<exists>d'. parse_datetime demo_lib (Str (strftime d)) = Some d' \<and> strftime d' = strftime d)"
  by (simp add: txn_mar_def txn_plain_def txn_jan_def strftime_def pad2_def pad4_def demo_defs)

theorem load_after_save_witness:
  "\<exists>df'. load_combined_csv demo_lib
            (save_combined_csv demo_lib [txn_mar, txn_plain, txn_jan, txn_jan] ledger_mar) = Inr df'
     \<and> length df' = 4
     \<and> map (\<lambda>t. date_text (date t)) df' = [''2024-03-01'', ''2024-02-03'', ''2024-01-01'', ''2024-01-01'']
     \<and> map time df' = [Str ''12:00:00'', Missing, Str ''09:30:00'', Str ''09:30:00'']
     \<and> map amount_gbp df' = [Some (- 20), Some (- 5), Some (- 3), Some (- 3)]"
proof -
  from load_after_save [OF demo_reads_back_examples, of ledger_mar]
  obtain df' where load: "load_combined_csv demo_lib
            (save_combined_csv demo_lib [txn_mar, txn_plain, txn_jan, txn_jan] ledger_mar) = Inr df'"
    and l: "length df' = length [txn_mar, txn_plain, txn_jan, txn_jan]"
    and d: "map (\<lambda>t. date_text (date t)) df'
              = map (\<lambda>t. date_text (date t)) [txn_mar, txn_plain, txn_jan, txn_jan]"
    and a: "map amount_gbp df' = map amount_gbp [txn_mar, txn_plain, txn_jan, txn_jan]"
    and t: "map time df' = read_csv_column demo_lib
              (map (\<lambda>t. csv_text demo_lib (time t)) [txn_mar, txn_plain, txn_jan, txn_jan])"
    by blast
  have d': "map (\<lambda>t. date_text (date t)) [txn_mar, txn_plain, txn_jan, txn_jan]
          = [''2024-03-01'', ''2024-02-03'', ''2024-01-01'', ''2024-01-01'']"
    by (simp add: txn_mar_def txn_plain_def txn_jan_def date_text_def strftime_def pad2_def pad4_def
        digit_char_def)
  have a': "map amount_gbp [txn_mar, txn_plain, txn_jan, txn_jan]
          = [Some (- 20), Some (- 5), Some (- 3), Some (- 3)]"
    by (simp add: txn_mar_def txn_plain_def txn_jan_def)
  have t': "read_csv_column demo_lib
              (map (\<lambda>t. csv_text demo_lib (time t)) [txn_mar, txn_plain, txn_jan, txn_jan])
          = [Str ''12:00:00'', Missing, Str ''09:30:00'', Str ''09:30:00'']"
    by (simp add: txn_mar_def txn_plain_def txn_jan_def csv_text_def read_csv_column_def
        csv_cell_def csv_number_cell_def na_values_def demo_defs)
  show ?thesis
    using load l d a t unfolding d' a' t' by (intro exI [of _ df']) simp
qed

lemma txn_mar_neq_jan: "txn_mar \<noteq> txn_jan"
  by (simp add: txn_mar_def txn_jan_def)

lemma sort_mar_jan: "sort_values_date (drop_duplicates [txn_mar, txn_jan]) = [txn_jan, txn_mar]"
proof -
  have "drop_duplicates [txn_mar, txn_jan] = [txn_mar, txn_jan]"
    using txn_mar_neq_jan by (simp add: drop_duplicates_def)
  moreover have "\<not> date_le (date txn_mar) (date txn_jan)"
    by (simp add: txn_mar_def txn_jan_def date_le_def date_less_eq_def)
  ultimately show ?thesis
    by (simp add: sort_values_date_def)
qed

lemma load_saved_mar_jan:
  "load_combined_csv demo_lib (save_combined_csv demo_lib [txn_mar, txn_jan] st)
     = Inr [txn_mar, txn_jan]"
  by (simp add: txn_mar_def txn_jan_def store_defs demo_defs)

text \<open>
  The claim C3 as stated fails on a ledger holding a March transaction before a January
  one: loading after saving gives them back in that order, while sorting the
  de-duplicated records would put January first.
\<close>

theorem load_after_save_counterexample:
  "load_combined_csv demo_lib (save_combined_csv demo_lib [txn_mar, txn_jan] ledger_mar)
     = Inr [txn_mar, txn_jan]
   \<and> sort_values_date (drop_duplicates [txn_mar, txn_jan]) = [txn_jan, txn_mar]
   \<and> load_combined_csv demo_lib (save_combined_csv demo_lib [txn_mar, txn_jan] ledger_mar)
     \<noteq> Inr (sort_values_date (drop_duplicates [txn_mar, txn_jan]))"
  using load_saved_mar_jan [of ledger_mar] sort_mar_jan txn_mar_neq_jan by simp

subsection \<open>The two merges\<close>

lemma api_upload_saves:
  assumes "has_file req" and "req_filename req \<noteq> []"
    and "read_upload L (lower (req_filename req)) (req_content req) = Inr normalized"
    and "frows normalized \<noteq> []"
  shows "ledger_file (snd (api_upload L req st))
           = Some (map (save_row L) (merge_existing L st (frows normalized)))"
  using assms
  by (simp add: api_upload_def Let_def save_combined_csv_def reload_data_def
      add_to_upload_history_def split: sum.splits)

text \<open>
  What the two merges do. The merge of the upload handler is the existing ledger, as
  loaded, followed by the new records, with exact duplicates removed (the first
  occurrence stays, the order of what remains is kept), or the new records alone and as
  they are when the existing ledger cannot be loaded; that list is what is written.
  \<open>normalize_and_merge\<close> is a rearrangement of the rows of its two inputs, none removed,
  that is ascending by date with missing dates last.
\<close>

lemma merge_concatenates_and_deduplicates:
  "(load_combined_csv L st = Inr existing_df
      \<longrightarrow> merge_existing L st new_df = drop_duplicates (existing_df @ new_df))
   \<and> (load_combined_csv L st = Inl e \<longrightarrow> merge_existing L st new_df = new_df)
   \<and> distinct (drop_duplicates xs) \<and> set (drop_duplicates xs) = set xs
   \<and> drop_duplicates (x # xs) = x # drop_duplicates (removeAll x xs)
   \<and> (has_file req \<and> req_filename req \<noteq> []
        \<and> read_upload L (lower (req_filename req)) (req_content req) = Inr normalized
        \<and> frows normalized \<noteq> []
      \<longrightarrow> ledger_file (snd (api_upload L req st))
            = Some (map (save_row L) (merge_existing L st (frows normalized))))
   \<and> mset (normalize_and_merge monzo_df korean_df) = mset (monzo_df @ korean_df)
   \<and> sorted_by_date (normalize_and_merge monzo_df korean_df)"
proof (intro conjI impI)
  show "distinct (drop_duplicates xs)"
    by (simp add: drop_duplicates_def distinct_drop_duplicates_from)
  show "set (drop_duplicates xs) = set xs"
    by (simp add: drop_duplicates_def set_drop_duplicates_from)
  show "drop_duplicates (x # xs) = x # drop_duplicates (removeAll x xs)"
    by (rule drop_duplicates_Cons)
  show "mset (normalize_and_merge monzo_df korean_df) = mset (monzo_df @ korean_df)"
    by (simp add: normalize_and_merge_eq mset_sort_values_date)
  show "sorted_by_date (normalize_and_merge monzo_df korean_df)"
    by (simp add: normalize_and_merge_eq sorted_sort_values_date)
  show "merge_existing L st new_df = drop_duplicates (existing_df @ new_df)"
    if "load_combined_csv L st = Inr existing_df"
    using that by (simp add: merge_existing_def)
  show "merge_existing L st new_df = new_df" if "load_combined_csv L st = Inl e"
    using that by (simp add: merge_existing_def)
  show "ledger_file (snd (api_upload L req st))
            = Some (map (save_row L) (merge_existing L st (frows normalized)))"
    if "has_file req \<and> req_filename req \<noteq> []
        \<and> read_upload L (lower (req_filename req)) (req_content req) = Inr normalized
        \<and> frows normalized \<noteq> []"
    using that api_upload_saves by blast
qed

lemma load_ledger_mar: "load_combined_csv (csv_lib df) ledger_mar = Inr [txn_mar]"
  by (simp add: ledger_mar_def txn_mar_def csv_lib_def store_defs demo_defs)

lemma normalize_monzo_jan:
  "normalize_uploaded_data (csv_lib monzo_jan) monzo_jan ''csv''
     = Inr \<lparr> fcolumns = ''date'' # normalized_columns, frows = [txn_jan] \<rparr>"
  by (simp add: monzo_jan_def txn_jan_def csv_lib_def normalize_defs cell_defs demo_defs)

lemma read_upload_jan:
  "read_upload (csv_lib monzo_jan) (lower (req_filename upload_csv)) (req_content upload_csv)
     = Inr \<lparr> fcolumns = ''date'' # normalized_columns, frows = [txn_jan] \<rparr>"
proof -
  have "endswith (lower (req_filename upload_csv)) ''.csv''"
    by (simp add: upload_csv_def string_defs)
  moreover have "read_csv (csv_lib monzo_jan) (req_content upload_csv) = Inr monzo_jan"
    by (simp add: csv_lib_def)
  ultimately show ?thesis
    using normalize_monzo_jan by (simp add: read_upload_def)
qed

lemma save_rows_mar_jan:
  "map (save_row (csv_lib monzo_jan)) [txn_mar, txn_jan] =
     [\<lparr> csv_date = ''2024-03-01'', csv_time = ''12:00:00'', csv_bank = ''Monzo'',
        csv_type = ''Card payment'', csv_merchant = ''Grocer'', csv_category = ''Groceries'',
        csv_amount_gbp = Some (- 20), csv_original_currency = ''GBP'',
        csv_original_amount = Some (- 20), csv_is_income = False \<rparr>,
      \<lparr> csv_date = ''2024-01-01'', csv_time = ''09:30:00'', csv_bank = ''Monzo'',
        csv_type = ''Card payment'', csv_merchant = ''Cafe'', csv_category = ''Eating out'',
        csv_amount_gbp = Some (- 3), csv_original_currency = ''GBP'',
        csv_original_amount = Some (- 3), csv_is_income = False \<rparr>]"
  by (simp add: txn_mar_def txn_jan_def save_row_def csv_text_def date_text_def strftime_def
      pad2_def pad4_def digit_char_def)

lemma merge_sorts_mar_jan:
  "normalize_and_merge [txn_mar] [txn_jan] = [txn_jan, txn_mar]"
  "normalize_and_merge [txn_jan, txn_jan] [txn_mar] = [txn_jan, txn_jan, txn_mar]"
proof -
  have "\<not> date_le (date txn_mar) (date txn_jan)" "date_le (date txn_jan) (date txn_mar)"
    "date_le (date txn_jan) (date txn_jan)"
    by (simp_all add: txn_mar_def txn_jan_def date_le_def date_less_eq_def)
  then show "normalize_and_merge [txn_mar] [txn_jan] = [txn_jan, txn_mar]"
    "normalize_and_merge [txn_jan, txn_jan] [txn_mar] = [txn_jan, txn_jan, txn_mar]"
    by (simp_all add: normalize_and_merge_def sort_values_date_def)
qed

text \<open>
  C2: the merge has to concatenate, remove exact duplicates and sort by date before the
  ledger is persisted; the upload handler does not sort. With a March transaction in
  the ledger, uploading a January transaction makes the merge March, January, and the
  ledger file is written in that order, while \<open>normalize_and_merge\<close> on the same two
  records puts January first. \<open>normalize_and_merge\<close> in turn keeps a record that is
  twice in its input twice, where the upload handler removes the second.
\<close>

theorem upload_merge_not_sorted:
  "merge_existing (csv_lib monzo_jan) ledger_mar [txn_jan] = [txn_mar, txn_jan]
   \<and> \<not> sorted_by_date [txn_mar, txn_jan]
   \<and> ledger_file (snd (api_upload (csv_lib monzo_jan) upload_csv ledger_mar))
       = Some (map (save_row (csv_lib monzo_jan)) [txn_mar, txn_jan])
   \<and> map csv_date (map (save_row (csv_lib monzo_jan)) [txn_mar, txn_jan])
       = [''2024-03-01'', ''2024-01-01'']
   \<and> normalize_and_merge [txn_mar] [txn_jan] = [txn_jan, txn_mar]
   \<and> normalize_and_merge [txn_jan, txn_jan] [txn_mar] = [txn_jan, txn_jan, txn_mar]
   \<and> drop_duplicates ([txn_jan, txn_jan] @ [txn_mar]) = [txn_jan, txn_mar]"
proof -
  have m: "merge_existing (csv_lib monzo_jan) ledger_mar [txn_jan] = [txn_mar, txn_jan]"
    using load_ledger_mar [of monzo_jan] txn_mar_neq_jan
    by (simp add: merge_existing_def drop_duplicates_def)
  have s: "\<not> sorted_by_date [txn_mar, txn_jan]"
    by (simp add: sorted_by_date_def txn_mar_def txn_jan_def date_le_def date_less_eq_def)
  have "has_file upload_csv" "req_filename upload_csv \<noteq> []"
    by (simp_all add: upload_csv_def)
  from api_upload_saves [OF this read_upload_jan, of ledger_mar]
  have f: "ledger_file (snd (api_upload (csv_lib monzo_jan) upload_csv ledger_mar))
       = Some (map (save_row (csv_lib monzo_jan)) [txn_mar, txn_jan])"
    using m by simp
  have t: "map csv_date (map (save_row (csv_lib monzo_jan)) [txn_mar, txn_jan])
       = [''2024-03-01'', ''2024-01-01'']"
    unfolding save_rows_mar_jan by simp
  have d: "drop_duplicates ([txn_jan, txn_jan] @ [txn_mar]) = [txn_jan, txn_mar]"
    using txn_mar_neq_jan by (auto simp add: drop_duplicates_def)
  show ?thesis
    using m s f t d merge_sorts_mar_jan by blast
qed


section \<open>The demo library reads back the dates it parses\<close>

lemma digit_val_digit_char: "digit_val (digit_char n) = Some (n mod 10)"
proof -
  define m where "m = n mod 10"
  have "m < 10" by (simp add: m_def)
  then have "m = 0 \<or> m = 1 \<or> m = 2 \<or> m = 3 \<or> m = 4
      \<or> m = 5 \<or> m = 6 \<or> m = 7 \<or> m = 8 \<or> m = 9"
    by arith
  then have "digit_val (''0123456789'' ! m) = Some m"
    by (elim disjE) (simp_all add: digit_val_def)
  then show ?thesis
    by (simp add: digit_char_def m_def)
qed

lemma nat_of_string_pad2: "n < 100 \<Longrightarrow> nat_of_string (pad2 n) = Some n"
proof -
  assume "n < 100"
  then have "n div 10 mod 10 = n div 10"
    by simp
  then have "10 * (n div 10 mod 10) + n mod 10 = n"
    by simp
  then show ?thesis
    by (simp add: nat_of_string_def pad2_def digit_val_digit_char)
qed

lemma nat_of_string_pad4: "n < 10000 \<Longrightarrow> nat_of_string (pad4 n) = Some n"
proof -
  assume n: "n < 10000"
  define q1 where "q1 = n div 10"
  define q2 where "q2 = q1 div 10"
  define q3 where "q3 = q2 div 10"
  have d: "n div 100 = q2" "n div 1000 = q3"
    by (simp_all add: q1_def q2_def q3_def div_mult2_eq)
  have "q3 < 10"
    using n d(2) by simp
  then have e3: "q3 mod 10 = q3"
    by simp
  have e2: "q2 = 10 * q3 + q2 mod 10"
    by (simp add: q3_def)
  have e1: "q1 = 10 * q2 + q1 mod 10"
    by (simp add: q2_def)
  have e0: "n = 10 * q1 + n mod 10"
    by (simp add: q1_def)
  have "1000 * q3 + 100 * (q2 mod 10) + 10 * (q1 mod 10) + n mod 10 = n"
    using e0 e1 e2 by simp
  then have "1000 * (n div 1000) + 100 * (n div 100 mod 10) + 10 * (n div 10 mod 10) + n mod 10 = n"
    by (simp add: d flip: q1_def)
  moreover have "n div 1000 mod 10 = n div 1000"
    using e3 d by simp
  ultimately show ?thesis
    by (simp add: nat_of_string_def pad4_def digit_val_digit_char)
qed

lemma valid_date_bounds: "valid_date d \<Longrightarrow> year d < 10000 \<and> month d < 100 \<and> day d < 100"
  by (auto simp add: valid_date_def days_in_month_def split: if_splits)

lemma iso_date_strftime: "valid_date d \<Longrightarrow> iso_date (strftime d) = Some d"
proof -
  assume v: "valid_date d"
  have parts: "length (strftime d) = 10" "strftime d ! 4 = CHR ''-''" "strftime d ! 7 = CHR ''-''"
    "take 4 (strftime d) = pad4 (year d)" "take 2 (drop 5 (strftime d)) = pad2 (month d)"
    "drop 8 (strftime d) = pad2 (day d)"
    by (simp_all add: strftime_def pad2_def pad4_def)
  have "make_date (Some (year d)) (Some (month d)) (Some (day d)) = Some d"
    using v by (cases d) (simp add: make_date_def Let_def)
  then show ?thesis
    using valid_date_bounds [OF v] by (simp add: iso_date_def parts nat_of_string_pad2 nat_of_string_pad4)
qed

lemma make_date_valid: "make_date y m d = Some x \<Longrightarrow> valid_date x"
  by (auto simp add: make_date_def Let_def split: option.splits if_splits)

lemma demo_parsed_valid: "parsed_by demo_lib d \<Longrightarrow> valid_date d"
  by (auto simp add: parsed_by_def demo_lib_def iso_date_def dmy_date_def
      split: cell.splits if_splits dest: make_date_valid)

lemma reads_back_demo_lib: "reads_back demo_lib"
  unfolding reads_back_def
proof (intro allI impI)
  fix d
  assume "parsed_by demo_lib d"
  then have "iso_date (strftime d) = Some d"
    using demo_parsed_valid iso_date_strftime by blast
  then show "parse_datetime demo_lib (Str (strftime d)) = Some d"
    by (simp add: demo_lib_def)
qed


section \<open>A failed upload\<close>

lemma to_datetime_parsed: "to_datetime L c = Some d \<Longrightarrow> parsed_by L d"
  by (auto simp add: to_datetime_def parsed_by_def split: cell.splits)

lemma to_datetime_dmy_parsed: "to_datetime_dmy L c = Some d \<Longrightarrow> parsed_by L d"
  by (auto simp add: to_datetime_dmy_def parsed_by_def split: cell.splits)

lemma monzo_row_parsed: "date (monzo_row L df r) = Some d \<Longrightarrow> parsed_by L d"
  by (auto simp add: monzo_row_def split: if_splits dest: to_datetime_dmy_parsed)

lemma korean_row_parsed: "date (korean_row L df r) = Some d \<Longrightarrow> parsed_by L d"
  by (auto simp add: korean_row_def split: option.splits dest: to_datetime_parsed)

lemma generic_row_parsed: "date (generic_row L df r) = Some d \<Longrightarrow> parsed_by L d"
  by (auto simp add: generic_row_def Let_def split: if_splits dest: to_datetime_parsed)

lemma normalize_dates_parsed:
  assumes "normalize_uploaded_data L df s = Inr normalized"
  shows "dates_parsed L (frows normalized)"
proof -
  obtain pre where pre: "select_branch L df = Inr pre"
    using assms by (auto simp add: normalize_uploaded_data_def split: sum.splits)
  then have "dropna_date_amount pre = Inr normalized"
    using assms by (simp add: normalize_uploaded_data_def)
  then have sub: "set (frows normalized) \<subseteq> set (frows pre)"
    by (auto simp add: dropna_date_amount_def Let_def split: if_splits)
  have "dates_parsed L (frows pre)"
    using select_branch_rows [OF pre]
    by (auto simp add: dates_parsed_def dest: monzo_row_parsed korean_row_parsed generic_row_parsed)
  then show ?thesis
    using sub by (auto simp add: dates_parsed_def)
qed

lemma read_upload_dates_parsed:
  assumes "read_upload L fname content = Inr normalized"
  shows "dates_parsed L (frows normalized)"
proof -
  have "\<exists>df s. normalize_uploaded_data L df s = Inr normalized"
    using assms by (auto simp add: read_upload_def split: if_splits sum.splits option.splits)
  then show ?thesis
    using normalize_dates_parsed by blast
qed

lemma load_dates_parsed:
  assumes "load_combined_csv L st = Inr df"
  shows "dates_parsed L df"
proof -
  obtain stored dates where stored: "ledger_file st = Some stored"
    and dates: "to_datetime_column L (map (\<lambda>r. csv_cell (csv_date r)) stored) = Inr dates"
    and df: "df = loaded_frame L stored dates"
    using assms by (auto simp add: load_combined_csv_def split: option.splits sum.splits)
  have eq: "dates = map (to_datetime L) (map (\<lambda>r. csv_cell (csv_date r)) stored)"
    using dates by (rule to_datetime_column_Inr)
  then have "length dates = length stored"
    by simp
  then have "map date df = dates"
    unfolding df by (rule loaded_frame_columns(1))
  then have "parsed_by L d" if "t \<in> set df" and "date t = Some d" for t d
  proof -
    have "Some d \<in> set dates"
      using that \<open>map date df = dates\<close> by (metis image_eqI list.set_map)
    then show ?thesis
      using eq to_datetime_parsed by auto
  qed
  then show ?thesis
    by (auto simp add: dates_parsed_def)
qed

lemma merge_existing_dates_parsed:
  assumes "dates_parsed L new_df"
  shows "dates_parsed L (merge_existing L st new_df)"
proof (cases "load_combined_csv L st")
  case (Inl e)
  then show ?thesis using assms by (simp add: merge_existing_def)
next
  case (Inr existing_df)
  then have "dates_parsed L existing_df"
    by (rule load_dates_parsed)
  then show ?thesis
    using assms Inr
    by (auto simp add: merge_existing_def dates_parsed_def drop_duplicates_def set_drop_duplicates_from)
qed

lemma reload_after_save:
  assumes "reads_back L" and "dates_parsed L combined"
  shows "\<exists>df'. reload_data L (save_combined_csv L combined st)
           = Inr (save_combined_csv L combined st \<lparr> df_cache := Some df' \<rparr>)"
proof -
  have "\<forall>t \<in> set combined. \<forall>d. date t = Some d \<longrightarrow> parse_datetime L (Str (strftime d)) \<noteq> None"
    using assms by (auto simp add: reads_back_def dates_parsed_def)
  then have "load_combined_csv L (save_combined_csv L combined st)
           = Inr (loaded_frame L (map (save_row L) combined)
                    (map (\<lambda>t. to_datetime L (csv_cell (date_text (date t)))) combined))"
    by (rule load_saved)
  then have "load_combined_csv L (save_combined_csv L combined st \<lparr> df_cache := None \<rparr>)
           = Inr (loaded_frame L (map (save_row L) combined)
                    (map (\<lambda>t. to_datetime L (csv_cell (date_text (date t)))) combined))"
    by (simp add: load_combined_csv_def save_combined_csv_def)
  then show ?thesis
    by (auto simp add: reload_data_def)
qed

lemma api_upload_error_unchanged:
  assumes "reads_back L" and "api_upload L req st = (Error code err, st')"
  shows "st' = st"
proof (cases "read_upload L (lower (req_filename req)) (req_content req)")
  case (Inl resp)
  then show ?thesis
    using assms(2) by (auto simp add: api_upload_def split: if_splits)
next
  case (Inr normalized)
  show ?thesis
  proof (cases "\<not> has_file req \<or> req_filename req = [] \<or> frows normalized = []")
    case True
    then show ?thesis
      using assms(2) Inr by (auto simp add: api_upload_def split: if_splits)
  next
    case False
    have "dates_parsed L (merge_existing L st (frows normalized))"
      using Inr read_upload_dates_parsed merge_existing_dates_parsed by blast
    from reload_after_save [OF assms(1) this, of st]
    have "\<exists>n m b s. api_upload L req st = (Success n m b, s)"
      using False Inr by (auto simp add: api_upload_def Let_def)
    then show ?thesis
      using assms(2) by auto
  qed
qed

lemma api_upload_unsupported:
  assumes "has_file req" and "req_filename req \<noteq> []"
    and "\<not> endswith (lower (req_filename req)) ''.csv''"
    and "\<not> endswith (lower (req_filename req)) ''.xlsx''"
    and "\<not> endswith (lower (req_filename req)) ''.xls''"
  shows "api_upload L req st = (Error 400 UnsupportedFormat, st)"
  using assms by (simp add: api_upload_def read_upload_def)

text \<open>
  C7: an upload whose file name, in lower case, ends neither in \<open>.csv\<close> nor in \<open>.xlsx\<close> or
  \<open>.xls\<close> is answered with the unsupported-format error (status 400) and the state,
  the ledger file in it, is returned as it was: the handler does not get to the save.
  More generally every error response leaves the ledger file as it was. The second part
  assumes that the date parser reads back the dates that were saved, so that the reload
  after the save does not raise; writing the ledger and the history cannot fail in this
  model.
\<close>

theorem failed_upload_leaves_ledger:
  "(has_file req \<and> req_filename req \<noteq> []
      \<and> \<not> endswith (lower (req_filename req)) ''.csv''
      \<and> \<not> endswith (lower (req_filename req)) ''.xlsx''
      \<and> \<not> endswith (lower (req_filename req)) ''.xls''
    \<longrightarrow> api_upload L req st = (Error 400 UnsupportedFormat, st))
   \<and> (reads_back L \<and> api_upload L req st = (Error code err, st')
    \<longrightarrow> st' = st \<and> ledger_file st' = ledger_file st)"
  using api_upload_unsupported [of req L st] api_upload_error_unchanged [of L req st code err st']
  by blast

theorem failed_upload_leaves_ledger_witness:
  "api_upload demo_lib upload_txt ledger_mar = (Error 400 UnsupportedFormat, ledger_mar)
   \<and> ledger_file (snd (api_upload demo_lib upload_txt ledger_mar)) = ledger_file ledger_mar
   \<and> reads_back demo_lib"
proof -
  have h: "has_file upload_txt \<and> req_filename upload_txt \<noteq> []
      \<and> \<not> endswith (lower (req_filename upload_txt)) ''.csv''
      \<and> \<not> endswith (lower (req_filename upload_txt)) ''.xlsx''
      \<and> \<not> endswith (lower (req_filename upload_txt)) ''.xls''"
    by (simp add: upload_txt_def string_defs)
  have one: "api_upload demo_lib upload_txt ledger_mar = (Error 400 UnsupportedFormat, ledger_mar)"
    using failed_upload_leaves_ledger [of upload_txt demo_lib ledger_mar] h by blast
  have "ledger_file (snd (api_upload demo_lib upload_txt ledger_mar)) = ledger_file ledger_mar"
    using failed_upload_leaves_ledger [of upload_txt demo_lib ledger_mar 400 UnsupportedFormat
        "snd (api_upload demo_lib upload_txt ledger_mar)"] reads_back_demo_lib one
    by simp
  then show ?thesis
    using one reads_back_demo_lib by simp
qed

end
